theory Spec2Isabelle
  imports Main
begin

section \<open>Python values, errors and strings\<close>

text \<open>
  The command line hands \<^verbatim>\<open>train\<close> dynamically typed values. Only \<^verbatim>\<open>gpu_devices\<close> is
  inspected for its shape (\<^verbatim>\<open>isinstance(gpu_devices, int)\<close>), so it is the one option
  kept as a tagged Python value; in Python \<^verbatim>\<open>bool\<close> is a subclass of \<^verbatim>\<open>int\<close>.
\<close>

datatype py_value =
    PyNone
  | PyBool bool
  | PyInt int
  | PyStr string
  | PyList "py_value list"
  | PyTuple "py_value list"

text \<open>
  The exceptions the sources can raise: the explicit \<^verbatim>\<open>raise ValueError\<close> of
  \<^verbatim>\<open>train\<close> (train.py:72) and the \<^verbatim>\<open>ZeroDivisionError\<close> of Python's \<^verbatim>\<open>%\<close>.
\<close>

datatype error = ValueError | ZeroDivisionError

fun isinstance_int :: "py_value \<Rightarrow> bool" where
  "isinstance_int (PyInt n) = True"
| "isinstance_int (PyBool b) = True"
| "isinstance_int v = False"

text \<open>\<^verbatim>\<open>v != k\<close> for an integer literal \<^verbatim>\<open>k\<close>: \<^verbatim>\<open>True\<close> and \<^verbatim>\<open>False\<close> compare as 1 and 0,
  a value that is no number is never equal to one.\<close>

fun py_ne_int :: "py_value \<Rightarrow> int \<Rightarrow> bool" where
  "py_ne_int (PyInt n) k = (n \<noteq> k)"
| "py_ne_int (PyBool b) k = ((if b then 1 else 0) \<noteq> k)"
| "py_ne_int v k = True"

text \<open>Python's \<^verbatim>\<open>a % b\<close> on integers: floor modulus (the sign of the divisor, as
  \<open>mod\<close> on \<open>int\<close>), raising on a zero divisor.\<close>

definition py_mod :: "int \<Rightarrow> int \<Rightarrow> error + int" where
  "py_mod a b = (if b = 0 then Inl ZeroDivisionError else Inr (a mod b))"

text \<open>\<^verbatim>\<open>str(i)\<close>, which is what an f-string field \<^verbatim>\<open>{epoch}\<close> renders: decimal digits,
  no leading zeros, a minus sign for negative numbers.\<close>

definition digit_char :: "nat \<Rightarrow> char" where
  "digit_char d = ''0123456789'' ! d"

fun digits :: "nat \<Rightarrow> string" where
  "digits n = (if n < 10 then [digit_char n] else digits (n div 10) @ [digit_char (n mod 10)])"

declare digits.simps [simp del]

definition str_int :: "int \<Rightarrow> string" where
  "str_int i = (if i < 0 then CHR ''-'' # digits (nat (- i)) else digits (nat i))"

text \<open>\<^verbatim>\<open>s.split(sep)\<close> for a one-character separator: always at least one field, empty
  fields kept.\<close>

fun split_str :: "string \<Rightarrow> char \<Rightarrow> string list" where
  "split_str [] sep = [[]]"
| "split_str (c # cs) sep =
     (if c = sep then [] # split_str cs sep
      else (case split_str cs sep of [] \<Rightarrow> [[c]] | p # ps \<Rightarrow> (c # p) # ps))"

text \<open>\<^verbatim>\<open>directory / name\<close> of \<^verbatim>\<open>pathlib\<close>, for a directory and a relative file name: the
  two joined by the separator. The normalisation \<^verbatim>\<open>pathlib\<close> applies to the directory
  part is not modelled; the checkpoint names below differ in the file name only.\<close>

definition path_join :: "string \<Rightarrow> string \<Rightarrow> string" where
  "path_join d f = d @ ''/'' @ f"

section \<open>The training engine as seen by the callbacks\<close>

text \<open>
  \<^verbatim>\<open>pl.Trainer\<close> belongs to the external engine. The callbacks read two attributes of it,
  \<^verbatim>\<open>current_epoch\<close> and \<^verbatim>\<open>global_step\<close>, and ask it to save itself; a value of
  \<open>trainer\<close> is the state of the run at the moment of a callback.
\<close>

record trainer =
  current_epoch :: int
  global_step :: int

record model_kwargs =
  kw_language_model_type :: string
  kw_language_model_variant :: string
  kw_prefix_length :: int
  kw_clip_prefix_length :: int
  kw_prefix_size :: int
  kw_num_layers :: int
  kw_num_attention_heads :: int
  kw_mapping_type :: string
  kw_scheduler_warmup_steps :: int
  kw_total_steps :: int
  kw_use_deepspeed :: bool

datatype model = CLIPCaptionPrefixOnly model_kwargs | CLIPCaptionModel model_kwargs

section \<open>Datasets (dataset.py)\<close>

text \<open>
  Modelled from the spec: \<^verbatim>\<open>TokenPrefixDataset\<close> of dataset.py, which is not among the
  sources. It is the spec's PrefixDataset, one source directory's collection of
  (visual prefix, token sequence) pairs with an item count and a prefix normalisation
  flag, immutable once loaded. The record keeps the three constructor arguments that
  \<^verbatim>\<open>train\<close> passes and the item count that \<^verbatim>\<open>len\<close> reports.
\<close>

record prefix_dataset =
  pd_directory :: string
  pd_batch_size :: int
  pd_normalize_prefix :: bool
  pd_length :: nat

text \<open>
  Modelled from the spec: \<^verbatim>\<open>MultiplePrefixDataset\<close> of dataset.py, which is not among the
  sources. It is the spec's CompositeDataset: an ordered concatenation of at least two
  PrefixDatasets, with the cumulative-length boundaries computed at construction time.
\<close>

record composite_dataset =
  members :: "prefix_dataset list"
  boundaries :: "nat list"

text \<open>Modelled from the spec: the cumulative-length boundaries of the member lengths,
  after an offset; boundary \<open>k\<close> is the first global index past member \<open>k\<close>.\<close>

fun cumulative :: "nat \<Rightarrow> nat list \<Rightarrow> nat list" where
  "cumulative acc [] = []"
| "cumulative acc (n # ns) = (acc + n) # cumulative (acc + n) ns"

text \<open>Modelled from the spec: \<^verbatim>\<open>merge(datasets...)\<close> of the DatasetComposer, the constructor
  of \<^verbatim>\<open>MultiplePrefixDataset\<close>. It requires at least two datasets and fails with the spec's
  ConfigurationError otherwise; that is the error kind the spec gives to the
  \<^verbatim>\<open>ValueError\<close> of \<^verbatim>\<open>train\<close>.\<close>

abbreviation (input) ConfigurationError :: error where
  "ConfigurationError \<equiv> ValueError"

definition MultiplePrefixDataset :: "prefix_dataset list \<Rightarrow> error + composite_dataset" where
  "MultiplePrefixDataset datasets =
     (if length datasets < 2 then Inl ConfigurationError
      else Inr \<lparr>members = datasets, boundaries = cumulative 0 (map pd_length datasets)\<rparr>)"

text \<open>Modelled from the spec: the length of a composite dataset, read off its last
  boundary.\<close>

definition composite_length :: "composite_dataset \<Rightarrow> nat" where
  "composite_length c = (case boundaries c of [] \<Rightarrow> 0 | b # bs \<Rightarrow> last (b # bs))"

text \<open>Modelled from the spec: index resolution by a linear search over the boundaries.
  \<open>locate bs k lo i\<close> looks for global index \<open>i\<close> among the members from number \<open>k\<close> on,
  which start at global index \<open>lo\<close>; the answer is the owning member's number and the
  local offset within it, and \<open>None\<close> for an index past the last boundary.\<close>

fun locate :: "nat list \<Rightarrow> nat \<Rightarrow> nat \<Rightarrow> nat \<Rightarrow> (nat \<times> nat) option" where
  "locate [] k lo i = None"
| "locate (b # bs) k lo i = (if i < b then Some (k, i - lo) else locate bs (Suc k) b i)"

definition resolve :: "composite_dataset \<Rightarrow> nat \<Rightarrow> (nat \<times> nat) option" where
  "resolve c i = locate (boundaries c) 0 0 i"

datatype dataset = Single prefix_dataset | Merged composite_dataset

fun len_dataset :: "dataset \<Rightarrow> nat" where
  "len_dataset (Single d) = pd_length d"
| "len_dataset (Merged c) = composite_length c"

section \<open>The data loader (external library)\<close>

text \<open>
  \<^verbatim>\<open>torch.utils.data.DataLoader\<close>, as far as \<^verbatim>\<open>train\<close> configures it; the library is not
  among the sources, and what follows is its documented behaviour. With \<^verbatim>\<open>shuffle=False\<close>
  the loader draws its indices from a sequential sampler, \<open>0, 1, ...\<close> in order, with
  \<^verbatim>\<open>shuffle=True\<close> from a random sampler, a permutation of them (here a parameter). A
  batch sampler then groups consecutive runs of \<^verbatim>\<open>batch_size\<close> indices into the batches,
  the last one possibly shorter. \<^verbatim>\<open>train\<close> only ever asks for batches of one; a batch size
  of 0, which the library refuses, gives no batch here.
\<close>

record dataloader =
  dl_dataset :: dataset
  dl_batch_size :: nat
  dl_shuffle :: bool

definition DataLoader :: "dataset \<Rightarrow> nat \<Rightarrow> bool \<Rightarrow> dataloader" where
  "DataLoader d bs sh = \<lparr>dl_dataset = d, dl_batch_size = bs, dl_shuffle = sh\<rparr>"

definition sampled_indices :: "(nat \<Rightarrow> nat list) \<Rightarrow> dataloader \<Rightarrow> nat list" where
  "sampled_indices perm dl =
     (if dl_shuffle dl then perm (len_dataset (dl_dataset dl))
      else [0..<len_dataset (dl_dataset dl)])"

definition in_batches :: "nat \<Rightarrow> 'a list \<Rightarrow> 'a list list" where
  "in_batches n xs = map (\<lambda>k. take n (drop (k * n) xs)) [0..<(length xs + n - 1) div n]"

definition loader_batches :: "(nat \<Rightarrow> nat list) \<Rightarrow> dataloader \<Rightarrow> nat list list" where
  "loader_batches perm dl = in_batches (dl_batch_size dl) (sampled_indices perm dl)"

text \<open>The items of a merged dataset in construction order: member by member, each in its
  local order, as pairs of member number and local offset.\<close>

fun enumerate_members :: "nat \<Rightarrow> nat list \<Rightarrow> (nat \<times> nat) list" where
  "enumerate_members k [] = []"
| "enumerate_members k (n # ns) = map (Pair k) [0..<n] @ enumerate_members (Suc k) ns"

definition construction_order :: "composite_dataset \<Rightarrow> (nat \<times> nat) list" where
  "construction_order c = enumerate_members 0 (map pd_length (members c))"

section \<open>The trainer's arguments\<close>

text \<open>The attributes of a \<^verbatim>\<open>CheckpointSaver\<close> (train.py:17-20); the trainer is given one as
  its callback.\<close>

record checkpoint_saver =
  output_path :: string
  filename_prefix :: string
  save_every_n_epochs :: int
  save_every_n_steps :: "int option"

text \<open>The arguments \<^verbatim>\<open>train\<close> gives to \<^verbatim>\<open>pl.Trainer\<close>. Constructing the trainer is
  recording them: what the library makes of them, such as how it reads \<^verbatim>\<open>gpus\<close>, lies
  outside the sources.\<close>

record trainer_args =
  gpus :: py_value
  max_epochs :: int
  callbacks :: "checkpoint_saver list"
  strategy :: "string option"
  precision :: int

section \<open>Effects\<close>

text \<open>
  Everything \<^verbatim>\<open>train\<close> does to the outside world, as a trace with the most recent effect
  first: creating the output directory, reading a dataset directory, constructing a
  model, printing, constructing the trainer (the call \<^verbatim>\<open>pl.Trainer(...)\<close> with its
  arguments), handing a model and a loader to the engine (the call \<^verbatim>\<open>trainer.fit\<close>), and
  writing a checkpoint file (its path and the run state saved).
\<close>

datatype effect =
    MkDir string
  | LoadDataset string int bool
  | ConstructModel model
  | Print string
  | ConstructTrainer trainer_args
  | Fit trainer_args model dataloader
  | SaveCheckpoint string trainer

type_synonym world = "effect list"

text \<open>\<^verbatim>\<open>trainer.save_checkpoint(path)\<close>: the write replaces whatever the file held.\<close>

definition save_checkpoint :: "trainer \<Rightarrow> string \<Rightarrow> world \<Rightarrow> world" where
  "save_checkpoint tr path w = SaveCheckpoint path tr # w"

text \<open>What a checkpoint file holds after the effects of a trace: the state of its most
  recent write, if any.\<close>

fun read_ckpt :: "world \<Rightarrow> string \<Rightarrow> trainer option" where
  "read_ckpt [] p = None"
| "read_ckpt (SaveCheckpoint q tr # w) p = (if q = p then Some tr else read_ckpt w p)"
| "read_ckpt (e # w) p = read_ckpt w p"

text \<open>The number of writes a trace holds to one path.\<close>

fun writes_to :: "string \<Rightarrow> world \<Rightarrow> nat" where
  "writes_to p [] = 0"
| "writes_to p (SaveCheckpoint q tr # w) = (if q = p then Suc (writes_to p w) else writes_to p w)"
| "writes_to p (e # w) = writes_to p w"

text \<open>The dataset directories a trace has read, with the batch size and the normalisation
  flag given, most recent first.\<close>

fun loads :: "world \<Rightarrow> (string \<times> int \<times> bool) list" where
  "loads [] = []"
| "loads (LoadDataset dir bs norm # w) = (dir, bs, norm) # loads w"
| "loads (e # w) = loads w"

text \<open>The arguments of the trainers a trace has constructed, most recent first.\<close>

fun trainer_calls :: "world \<Rightarrow> trainer_args list" where
  "trainer_calls [] = []"
| "trainer_calls (ConstructTrainer t # w) = t # trainer_calls w"
| "trainer_calls (e # w) = trainer_calls w"

text \<open>The loaders a trace has handed to the engine, most recent first.\<close>

fun fit_loaders :: "world \<Rightarrow> dataloader list" where
  "fit_loaders [] = []"
| "fit_loaders (Fit t m dl # w) = dl # fit_loaders w"
| "fit_loaders (e # w) = fit_loaders w"

section \<open>CheckpointSaver (train.py:12-37)\<close>

text \<open>\<^verbatim>\<open>__init__\<close>: creates the output directory and stores its four arguments as they
  are.\<close>

definition CheckpointSaver :: "string \<Rightarrow> string \<Rightarrow> int \<Rightarrow> int option \<Rightarrow> world \<Rightarrow> checkpoint_saver \<times> world" where
  "CheckpointSaver out_path prefix n_epochs n_steps w =
     (\<lparr>output_path = out_path, filename_prefix = prefix,
       save_every_n_epochs = n_epochs, save_every_n_steps = n_steps\<rparr>,
      MkDir out_path # w)"

definition epoch_ckpt :: "checkpoint_saver \<Rightarrow> int \<Rightarrow> string" where
  "epoch_ckpt s epoch = path_join (output_path s) (filename_prefix s @ ''_epoch_'' @ str_int epoch @ ''.ckpt'')"

definition latest_ckpt :: "checkpoint_saver \<Rightarrow> string" where
  "latest_ckpt s = path_join (output_path s) (filename_prefix s @ ''_latest.ckpt'')"

definition final_ckpt :: "checkpoint_saver \<Rightarrow> string" where
  "final_ckpt s = path_join (output_path s) (filename_prefix s @ ''_final.ckpt'')"

definition on_epoch_end :: "checkpoint_saver \<Rightarrow> trainer \<Rightarrow> world \<Rightarrow> (error + unit) \<times> world" where
  "on_epoch_end s tr w =
     (let epoch = current_epoch tr in
      case py_mod epoch (save_every_n_epochs s) of
        Inl e \<Rightarrow> (Inl e, w)
      | Inr r \<Rightarrow>
          if r = 0 then (Inr (), save_checkpoint tr (epoch_ckpt s epoch) w)
          else (Inr (), w))"

definition on_batch_end :: "checkpoint_saver \<Rightarrow> trainer \<Rightarrow> world \<Rightarrow> (error + unit) \<times> world" where
  "on_batch_end s tr w =
     (case save_every_n_steps s of
        None \<Rightarrow> (Inr (), w)
      | Some n_steps \<Rightarrow>
          (let current_step = global_step tr in
           case py_mod current_step n_steps of
             Inl e \<Rightarrow> (Inl e, w)
           | Inr r \<Rightarrow>
               if r = 0 then (Inr (), save_checkpoint tr (latest_ckpt s) w)
               else (Inr (), w)))"

definition save_final_checkpoint :: "checkpoint_saver \<Rightarrow> trainer \<Rightarrow> world \<Rightarrow> world" where
  "save_final_checkpoint s tr w = save_checkpoint tr (final_ckpt s) w"

text \<open>
  The engine calls the hooks of every registered callback, in the order of registration,
  at each event; an exception raised by a hook ends the run there.
\<close>

datatype event = EpochEnd trainer | BatchEnd trainer

fun deliver :: "checkpoint_saver \<Rightarrow> event \<Rightarrow> world \<Rightarrow> (error + unit) \<times> world" where
  "deliver s (EpochEnd tr) w = on_epoch_end s tr w"
| "deliver s (BatchEnd tr) w = on_batch_end s tr w"

fun dispatch :: "checkpoint_saver list \<Rightarrow> event \<Rightarrow> world \<Rightarrow> (error + unit) \<times> world" where
  "dispatch [] ev w = (Inr (), w)"
| "dispatch (cb # cbs) ev w =
     (case deliver cb ev w of
        (Inl e, w') \<Rightarrow> (Inl e, w')
      | (Inr u, w') \<Rightarrow> dispatch cbs ev w')"

fun run_events :: "checkpoint_saver list \<Rightarrow> event list \<Rightarrow> world \<Rightarrow> (error + unit) \<times> world" where
  "run_events cbs [] w = (Inr (), w)"
| "run_events cbs (ev # evs) w =
     (case dispatch cbs ev w of
        (Inl e, w') \<Rightarrow> (Inl e, w')
      | (Inr u, w') \<Rightarrow> run_events cbs evs w')"

text \<open>The global steps of the batch-end events of a sequence that meet a step cadence,
  in the order delivered.\<close>

fun qualifying_steps :: "int \<Rightarrow> event list \<Rightarrow> int list" where
  "qualifying_steps n [] = []"
| "qualifying_steps n (BatchEnd tr # evs) =
     (if global_step tr mod n = 0 then global_step tr # qualifying_steps n evs
      else qualifying_steps n evs)"
| "qualifying_steps n (EpochEnd tr # evs) = qualifying_steps n evs"

fun batch_steps :: "event list \<Rightarrow> int list" where
  "batch_steps [] = []"
| "batch_steps (BatchEnd tr # evs) = global_step tr # batch_steps evs"
| "batch_steps (EpochEnd tr # evs) = batch_steps evs"

fun epochs_ended :: "event list \<Rightarrow> int list" where
  "epochs_ended [] = []"
| "epochs_ended (EpochEnd tr # evs) = current_epoch tr # epochs_ended evs"
| "epochs_ended (BatchEnd tr # evs) = epochs_ended evs"

text \<open>The state saved by the last batch-end event of a sequence that meets a step
  cadence, if any.\<close>

fun last_qualifying :: "int \<Rightarrow> event list \<Rightarrow> trainer option" where
  "last_qualifying n [] = None"
| "last_qualifying n (BatchEnd tr # evs) =
     (case last_qualifying n evs of
        Some t \<Rightarrow> Some t
      | None \<Rightarrow> if global_step tr mod n = 0 then Some tr else None)"
| "last_qualifying n (EpochEnd tr # evs) = last_qualifying n evs"

section \<open>The environment of a run\<close>

text \<open>
  What lies outside the sources is a parameter of the run: how many items the dataset
  of a directory holds, and what the engine does in \<^verbatim>\<open>trainer.fit\<close>, namely the events it
  sends to the callbacks, in order, and the state it ends in. Failures of the outside
  world (a directory that cannot be read or created, a write that fails, an exception of
  the engine's own) are not modelled: the errors of the model are those the sources
  raise.
\<close>

record env =
  items_in :: "string \<Rightarrow> int \<Rightarrow> bool \<Rightarrow> nat"
  engine :: "trainer_args \<Rightarrow> model \<Rightarrow> dataloader \<Rightarrow> event list \<times> trainer"

definition TokenPrefixDataset :: "env \<Rightarrow> string \<Rightarrow> int \<Rightarrow> bool \<Rightarrow> world \<Rightarrow> prefix_dataset \<times> world" where
  "TokenPrefixDataset env dir bs norm w =
     (\<lparr>pd_directory = dir, pd_batch_size = bs, pd_normalize_prefix = norm,
       pd_length = items_in env dir bs norm\<rparr>,
      LoadDataset dir bs norm # w)"

section \<open>train (train.py:40-141)\<close>

record config =
  data_dir :: string
  output_dir :: string
  output_name_prefix :: string
  epochs :: int
  save_every_epochs :: int
  save_every_steps :: "int option"
  scheduler_warmup_steps :: int
  prefix_length :: int
  prefix_size :: int
  clip_prefix_length :: int
  language_model_type :: string
  language_model_variant :: string
  batch_size :: int
  prefix_only :: bool
  mapping_type :: string
  num_layers :: int
  num_attention_heads :: int
  normalize_prefix :: bool
  merge_datasets :: bool
  use_deepspeed :: bool
  use_16bit_precision :: bool
  gpu_devices :: py_value
  deepspeed_strategy :: "string option"

text \<open>The loop of train.py:77-81: one dataset per directory, appended in order.\<close>

fun load_all :: "env \<Rightarrow> config \<Rightarrow> string list \<Rightarrow> prefix_dataset list \<Rightarrow> world \<Rightarrow> prefix_dataset list \<times> world" where
  "load_all env cfg [] datasets w = (datasets, w)"
| "load_all env cfg (dir # dirs) datasets w =
     (case TokenPrefixDataset env dir (batch_size cfg) (normalize_prefix cfg) w of
        (d, w') \<Rightarrow> load_all env cfg dirs (datasets @ [d]) w')"

text \<open>train.py:67-85.\<close>

definition prepare_datasets :: "env \<Rightarrow> config \<Rightarrow> world \<Rightarrow> (error + dataset) \<times> world" where
  "prepare_datasets env cfg w =
     (if merge_datasets cfg then
        (let data_dirs = split_str (data_dir cfg) CHR '','' in
         if length data_dirs < 2 then (Inl ValueError, w)
         else
           (case load_all env cfg data_dirs [] w of
              (datasets, w') \<Rightarrow>
                (case MultiplePrefixDataset datasets of
                   Inl e \<Rightarrow> (Inl e, w')
                 | Inr c \<Rightarrow> (Inr (Merged c), w'))))
      else
        (case TokenPrefixDataset env (data_dir cfg) (batch_size cfg) (normalize_prefix cfg) w of
           (d, w') \<Rightarrow> (Inr (Single d), w')))"

text \<open>train.py:90-109.\<close>

definition model_kwargs_of :: "config \<Rightarrow> int \<Rightarrow> model_kwargs" where
  "model_kwargs_of cfg total_steps =
     \<lparr>kw_language_model_type = language_model_type cfg,
      kw_language_model_variant = language_model_variant cfg,
      kw_prefix_length = prefix_length cfg,
      kw_clip_prefix_length = clip_prefix_length cfg,
      kw_prefix_size = prefix_size cfg,
      kw_num_layers = num_layers cfg,
      kw_num_attention_heads = num_attention_heads cfg,
      kw_mapping_type = mapping_type cfg,
      kw_scheduler_warmup_steps = scheduler_warmup_steps cfg,
      kw_total_steps = total_steps,
      kw_use_deepspeed = use_deepspeed cfg\<rparr>"

definition build_model :: "config \<Rightarrow> model_kwargs \<Rightarrow> world \<Rightarrow> model \<times> world" where
  "build_model cfg kwargs w =
     (if prefix_only cfg then
        (CLIPCaptionPrefixOnly kwargs,
         Print ''Train only Prefix.'' # ConstructModel (CLIPCaptionPrefixOnly kwargs) # w)
      else
        (CLIPCaptionModel kwargs,
         Print ''Train both Prefix and Language Model.'' # ConstructModel (CLIPCaptionModel kwargs) # w))"

fun kwargs_of_model :: "model \<Rightarrow> model_kwargs" where
  "kwargs_of_model (CLIPCaptionPrefixOnly kw) = kw"
| "kwargs_of_model (CLIPCaptionModel kw) = kw"

text \<open>train.py:111-113.\<close>

definition resolve_gpu_devices :: "py_value \<Rightarrow> py_value" where
  "resolve_gpu_devices g = (if isinstance_int g \<and> py_ne_int g (- 1) then PyList [g] else g)"

text \<open>The local variables of \<^verbatim>\<open>train\<close> once the trainer is constructed (train.py:135).\<close>

record train_locals =
  l_dataset :: dataset
  l_total_steps :: int
  l_model :: model
  l_gpu_devices :: py_value
  l_checkpoint_saver :: checkpoint_saver
  l_dataloader :: dataloader
  l_trainer :: trainer_args

text \<open>train.py:67-135: everything before the engine runs.\<close>

definition train_setup :: "env \<Rightarrow> config \<Rightarrow> world \<Rightarrow> (error + train_locals) \<times> world" where
  "train_setup env cfg w =
     (case prepare_datasets env cfg w of
        (Inl e, w1) \<Rightarrow> (Inl e, w1)
      | (Inr dataset, w1) \<Rightarrow>
          (let total_steps = int (len_dataset dataset) * epochs cfg in
           case build_model cfg (model_kwargs_of cfg total_steps) w1 of
             (model, w2) \<Rightarrow>
               (let gpu = resolve_gpu_devices (gpu_devices cfg) in
                case CheckpointSaver (output_dir cfg) (output_name_prefix cfg)
                       (save_every_epochs cfg) (save_every_steps cfg) w2 of
                  (saver, w3) \<Rightarrow>
                    (let loader = DataLoader dataset 1 False;
                         trainer = \<lparr>gpus = gpu, max_epochs = epochs cfg, callbacks = [saver],
                                    strategy = deepspeed_strategy cfg,
                                    precision = (if use_16bit_precision cfg then 16 else 32)\<rparr>
                     in (Inr \<lparr>l_dataset = dataset, l_total_steps = total_steps, l_model = model,
                              l_gpu_devices = gpu, l_checkpoint_saver = saver,
                              l_dataloader = loader, l_trainer = trainer\<rparr>,
                         ConstructTrainer trainer # w3)))))"

text \<open>\<^verbatim>\<open>trainer.fit(model, dataloader)\<close> (train.py:138): the engine is handed the model
  and the loader, and its events go to the registered callbacks; an exception of a
  callback ends the fit.\<close>

definition fit :: "env \<Rightarrow> trainer_args \<Rightarrow> model \<Rightarrow> dataloader \<Rightarrow> world \<Rightarrow> (error + trainer) \<times> world" where
  "fit env t m dl w =
     (case engine env t m dl of
        (evs, tr_end) \<Rightarrow>
          (case run_events (callbacks t) evs (Fit t m dl # w) of
             (Inl e, w') \<Rightarrow> (Inl e, w')
           | (Inr u, w') \<Rightarrow> (Inr tr_end, w')))"

text \<open>The whole of \<^verbatim>\<open>train\<close>: set up, fit, then the final save (train.py:141).\<close>

definition train :: "env \<Rightarrow> config \<Rightarrow> world \<Rightarrow> (error + unit) \<times> world" where
  "train env cfg w =
     (case train_setup env cfg w of
        (Inl e, w1) \<Rightarrow> (Inl e, w1)
      | (Inr l, w1) \<Rightarrow>
          (case fit env (l_trainer l) (l_model l) (l_dataloader l) w1 of
             (Inl e, w2) \<Rightarrow> (Inl e, w2)
           | (Inr tr_end, w2) \<Rightarrow>
               (Inr (), save_final_checkpoint (l_checkpoint_saver l) tr_end w2)))"

text \<open>The checkpoint saver \<^verbatim>\<open>train\<close> constructs from a configuration.\<close>

definition saver_of :: "config \<Rightarrow> checkpoint_saver" where
  "saver_of cfg = \<lparr>output_path = output_dir cfg, filename_prefix = output_name_prefix cfg,
     save_every_n_epochs = save_every_epochs cfg, save_every_n_steps = save_every_steps cfg\<rparr>"

text \<open>The dataset \<^verbatim>\<open>train\<close> loads from one directory.\<close>

definition dataset_at :: "env \<Rightarrow> config \<Rightarrow> string \<Rightarrow> prefix_dataset" where
  "dataset_at env cfg dir =
     \<lparr>pd_directory = dir, pd_batch_size = batch_size cfg, pd_normalize_prefix = normalize_prefix cfg,
      pd_length = items_in env dir (batch_size cfg) (normalize_prefix cfg)\<rparr>"

text \<open>The locals of a set-up that succeeds, from the dataset it prepared.\<close>

definition locals_of :: "config \<Rightarrow> dataset \<Rightarrow> train_locals" where
  "locals_of cfg d =
     \<lparr>l_dataset = d,
      l_total_steps = int (len_dataset d) * epochs cfg,
      l_model = (if prefix_only cfg
                 then CLIPCaptionPrefixOnly (model_kwargs_of cfg (int (len_dataset d) * epochs cfg))
                 else CLIPCaptionModel (model_kwargs_of cfg (int (len_dataset d) * epochs cfg))),
      l_gpu_devices = resolve_gpu_devices (gpu_devices cfg),
      l_checkpoint_saver = saver_of cfg,
      l_dataloader = DataLoader d 1 False,
      l_trainer = \<lparr>gpus = resolve_gpu_devices (gpu_devices cfg), max_epochs = epochs cfg,
                   callbacks = [saver_of cfg], strategy = deepspeed_strategy cfg,
                   precision = (if use_16bit_precision cfg then 16 else 32)\<rparr>\<rparr>"

section \<open>Concrete inputs\<close>

definition demo_saver :: "int \<Rightarrow> int option \<Rightarrow> checkpoint_saver" where
  "demo_saver ne ns = \<lparr>output_path = ''models'', filename_prefix = ''demo'',
     save_every_n_epochs = ne, save_every_n_steps = ns\<rparr>"

definition at :: "int \<Rightarrow> int \<Rightarrow> trainer" where
  "at e g = \<lparr>current_epoch = e, global_step = g\<rparr>"

text \<open>The defaults of \<^verbatim>\<open>train\<close>'s signature (train.py:41-63).\<close>

definition default_config :: config where
  "default_config =
     \<lparr>data_dir = ''./train/'', output_dir = ''./models/'', output_name_prefix = ''demo_model.ckpt'',
      epochs = 3, save_every_epochs = 1, save_every_steps = Some 10000,
      scheduler_warmup_steps = 500, prefix_length = 10, prefix_size = 768,
      clip_prefix_length = 10, language_model_type = ''gpt2'',
      language_model_variant = ''gpt2-xl'', batch_size = 256, prefix_only = False,
      mapping_type = ''transformer'', num_layers = 8, num_attention_heads = 8,
      normalize_prefix = False, merge_datasets = False, use_deepspeed = False,
      use_16bit_precision = True, gpu_devices = PyStr ''0'', deepspeed_strategy = None\<rparr>"

text \<open>An environment for the spec's scenario: directory A holds 100 items, B holds 50,
  and the engine ends each of its epochs with one epoch-end event.\<close>

definition demo_env :: env where
  "demo_env =
     \<lparr>items_in = (\<lambda>dir bs norm. if dir = ''A'' then 100 else if dir = ''B'' then 50 else 7),
      engine = (\<lambda>t m dl. (map (\<lambda>e. EpochEnd (at (int e) (int (Suc e)))) [0..<nat (max_epochs t)],
                          at (max_epochs t) (max_epochs t)))\<rparr>"

definition demo_member :: "string \<Rightarrow> nat \<Rightarrow> prefix_dataset" where
  "demo_member dir n = \<lparr>pd_directory = dir, pd_batch_size = 256, pd_normalize_prefix = False, pd_length = n\<rparr>"

definition merged_config :: config where
  "merged_config = default_config\<lparr>data_dir := ''A,B'', merge_datasets := True,
     save_every_steps := None, output_dir := ''models'', output_name_prefix := ''demo''\<rparr>"

definition demo_dataset :: dataset where
  "demo_dataset = Merged \<lparr>members = [demo_member ''A'' 100, demo_member ''B'' 50], boundaries = [100, 150]\<rparr>"

section \<open>Properties of the checkpoint saver\<close>

subsection \<open>Decimal rendering is injective\<close>

lemma digit_char_inj: "a < 10 \<Longrightarrow> b < 10 \<Longrightarrow> digit_char a = digit_char b \<Longrightarrow> a = b"
  unfolding digit_char_def
  by (subst (asm) nth_eq_iff_index_eq) simp_all

lemma digit_char_not_minus: "d < 10 \<Longrightarrow> digit_char d \<noteq> CHR ''-''"
proof -
  assume "d < 10"
  then have "digit_char d \<in> set ''0123456789''"
    unfolding digit_char_def by (intro nth_mem) simp
  then show ?thesis by auto
qed

lemma digits_nonempty: "digits n \<noteq> []"
  by (subst digits.simps) simp

lemma hd_digits_not_minus: "hd (digits n) \<noteq> CHR ''-''"
proof (induction n rule: digits.induct)
  case (1 n)
  show ?case
  proof (cases "n < 10")
    case True
    then show ?thesis by (subst digits.simps) (simp add: digit_char_not_minus)
  next
    case False
    with 1 show ?thesis
      by (subst digits.simps) (simp add: digits_nonempty)
  qed
qed

lemma digits_inj: "digits n = digits m \<Longrightarrow> n = m"
proof (induction n arbitrary: m rule: digits.induct)
  case (1 n)
  show ?case
  proof (cases "n < 10")
    case n: True
    show ?thesis
    proof (cases "m < 10")
      case True
      with n 1(2) show ?thesis
        by (simp add: digits.simps[of n] digits.simps[of m] digit_char_inj)
    next
      case False
      with n 1(2) show ?thesis
        by (simp add: digits.simps[of n] digits.simps[of m] digits_nonempty digits_nonempty[symmetric])
    qed
  next
    case n: False
    show ?thesis
    proof (cases "m < 10")
      case True
      with n 1(2) show ?thesis
        by (simp add: digits.simps[of n] digits.simps[of m] digits_nonempty digits_nonempty[symmetric])
    next
      case False
      with n 1(2) have eq: "digits (n div 10) = digits (m div 10)"
        and d: "digit_char (n mod 10) = digit_char (m mod 10)"
        by (simp_all add: digits.simps[of n] digits.simps[of m])
      from 1(1)[OF n eq] have "n div 10 = m div 10" .
      moreover from d have "n mod 10 = m mod 10"
        by (intro digit_char_inj) simp_all
      ultimately show ?thesis
        by (metis div_mult_mod_eq)
    qed
  qed
qed

lemma minus_digits_neq: "CHR ''-'' # digits x \<noteq> digits y"
  using hd_digits_not_minus[of y] by (metis list.sel(1))

lemma str_int_inj: "str_int a = str_int b \<Longrightarrow> a = b"
proof -
  assume eq: "str_int a = str_int b"
  show "a = b"
  proof (cases "a < 0")
    case a: True
    show ?thesis
    proof (cases "b < 0")
      case True
      with a eq have "nat (- a) = nat (- b)"
        by (simp add: str_int_def digits_inj)
      with a True show ?thesis by simp
    next
      case False
      with a eq minus_digits_neq show ?thesis by (simp add: str_int_def)
    qed
  next
    case a: False
    show ?thesis
    proof (cases "b < 0")
      case True
      with a eq minus_digits_neq[of "nat (- b)" "nat a"] show ?thesis by (simp add: str_int_def)
    next
      case False
      with a eq have "nat a = nat b"
        by (simp add: str_int_def digits_inj)
      with a False show ?thesis by simp
    qed
  qed
qed

subsection \<open>The three kinds of checkpoint file never collide\<close>

lemma epoch_ckpt_inj: "epoch_ckpt s a = epoch_ckpt s b \<longleftrightarrow> a = b"
  by (auto simp: epoch_ckpt_def path_join_def dest: str_int_inj)

lemma epoch_ckpt_neq_latest: "epoch_ckpt s a \<noteq> latest_ckpt s"
  by (simp add: epoch_ckpt_def latest_ckpt_def path_join_def)

lemma epoch_ckpt_neq_final: "epoch_ckpt s a \<noteq> final_ckpt s"
  by (simp add: epoch_ckpt_def final_ckpt_def path_join_def)

lemma latest_ckpt_neq_final: "latest_ckpt s \<noteq> final_ckpt s"
  by (simp add: latest_ckpt_def final_ckpt_def path_join_def)

subsection \<open>The handlers, one event at a time\<close>

lemma on_epoch_end_nonzero:
  "save_every_n_epochs s \<noteq> 0 \<Longrightarrow>
   on_epoch_end s tr w =
     (Inr (), if current_epoch tr mod save_every_n_epochs s = 0
              then SaveCheckpoint (epoch_ckpt s (current_epoch tr)) tr # w else w)"
  by (simp add: on_epoch_end_def py_mod_def save_checkpoint_def)

lemma on_epoch_end_zero:
  "save_every_n_epochs s = 0 \<Longrightarrow> on_epoch_end s tr w = (Inl ZeroDivisionError, w)"
  by (simp add: on_epoch_end_def py_mod_def)

lemma on_batch_end_unset:
  "save_every_n_steps s = None \<Longrightarrow> on_batch_end s tr w = (Inr (), w)"
  by (simp add: on_batch_end_def)

lemma on_batch_end_nonzero:
  "save_every_n_steps s = Some n \<Longrightarrow> n \<noteq> 0 \<Longrightarrow>
   on_batch_end s tr w =
     (Inr (), if global_step tr mod n = 0 then SaveCheckpoint (latest_ckpt s) tr # w else w)"
  by (simp add: on_batch_end_def py_mod_def save_checkpoint_def)

lemma on_batch_end_zero:
  "save_every_n_steps s = Some 0 \<Longrightarrow> on_batch_end s tr w = (Inl ZeroDivisionError, w)"
  by (simp add: on_batch_end_def py_mod_def)

lemma dispatch_single: "dispatch [s] ev w = deliver s ev w"
  by (cases "deliver s ev w") (auto split: sum.splits)

lemma epoch_end_keeps_other_epochs:
  "current_epoch tr \<noteq> E \<Longrightarrow>
   read_ckpt (snd (on_epoch_end s tr w)) (epoch_ckpt s E) = read_ckpt w (epoch_ckpt s E)"
  by (cases "save_every_n_epochs s = 0")
     (simp_all add: on_epoch_end_zero on_epoch_end_nonzero epoch_ckpt_inj)

lemma batch_end_keeps_epochs:
  "read_ckpt (snd (on_batch_end s tr w)) (epoch_ckpt s E) = read_ckpt w (epoch_ckpt s E)"
  by (auto simp: on_batch_end_def py_mod_def save_checkpoint_def epoch_ckpt_neq_latest[symmetric]
           split: option.splits)

lemma run_events_keeps_other_epochs:
  "E \<notin> set (epochs_ended evs) \<Longrightarrow>
   read_ckpt (snd (run_events [s] evs w)) (epoch_ckpt s E) = read_ckpt w (epoch_ckpt s E)"
proof (induction evs arbitrary: w)
  case Nil
  then show ?case by simp
next
  case (Cons ev evs)
  obtain r w1 where d: "deliver s ev w = (r, w1)" by (cases "deliver s ev w")
  have keep: "read_ckpt w1 (epoch_ckpt s E) = read_ckpt w (epoch_ckpt s E)"
  proof (cases ev)
    case (EpochEnd tr)
    with Cons.prems have "current_epoch tr \<noteq> E" by auto
    from epoch_end_keeps_other_epochs[OF this, of s w] d EpochEnd show ?thesis by simp
  next
    case (BatchEnd tr)
    with batch_end_keeps_epochs[of s tr w E] d show ?thesis by simp
  qed
  from Cons.prems have rest: "E \<notin> set (epochs_ended evs)" by (cases ev) auto
  show ?case
  proof (cases r)
    case (Inl e)
    with d keep show ?thesis by (simp add: dispatch_single)
  next
    case (Inr u)
    with d keep Cons.IH[OF rest, of w1] show ?thesis by (simp add: dispatch_single)
  qed
qed

subsection \<open>The latest snapshot over a run\<close>

lemma epoch_end_keeps_latest:
  "read_ckpt (snd (on_epoch_end s tr w)) (latest_ckpt s) = read_ckpt w (latest_ckpt s)"
  by (cases "save_every_n_epochs s = 0")
     (simp_all add: on_epoch_end_zero on_epoch_end_nonzero epoch_ckpt_neq_latest)

lemma epoch_end_no_latest_write:
  "writes_to (latest_ckpt s) (snd (on_epoch_end s tr w)) = writes_to (latest_ckpt s) w"
  by (cases "save_every_n_epochs s = 0")
     (simp_all add: on_epoch_end_zero on_epoch_end_nonzero epoch_ckpt_neq_latest)

lemma run_events_unset_no_latest_write:
  "save_every_n_steps s = None \<Longrightarrow>
   writes_to (latest_ckpt s) (snd (run_events [s] evs w)) = writes_to (latest_ckpt s) w"
proof (induction evs arbitrary: w)
  case Nil
  then show ?case by simp
next
  case (Cons ev evs)
  obtain r w1 where d: "deliver s ev w = (r, w1)" by (cases "deliver s ev w")
  have keep: "writes_to (latest_ckpt s) w1 = writes_to (latest_ckpt s) w"
  proof (cases ev)
    case (EpochEnd tr)
    with epoch_end_no_latest_write[of s tr w] d show ?thesis by simp
  next
    case (BatchEnd tr)
    with on_batch_end_unset[OF Cons.prems, of tr w] d show ?thesis by simp
  qed
  show ?case
  proof (cases r)
    case (Inl e)
    with d keep show ?thesis by (simp add: dispatch_single)
  next
    case (Inr u)
    with d keep Cons.IH[OF Cons.prems, of w1] show ?thesis by (simp add: dispatch_single)
  qed
qed

lemma run_events_latest:
  "save_every_n_steps s = Some n \<Longrightarrow> n \<noteq> 0 \<Longrightarrow> fst (run_events [s] evs w) = Inr () \<Longrightarrow>
   read_ckpt (snd (run_events [s] evs w)) (latest_ckpt s) =
     (case last_qualifying n evs of Some t \<Rightarrow> Some t | None \<Rightarrow> read_ckpt w (latest_ckpt s))"
proof (induction evs arbitrary: w)
  case Nil
  then show ?case by simp
next
  case (Cons ev evs)
  obtain r w1 where d: "deliver s ev w = (r, w1)" by (cases "deliver s ev w")
  from Cons.prems(3) d have r: "r = Inr ()"
    by (cases r) (simp_all add: dispatch_single)
  with Cons.prems(3) d have ok: "fst (run_events [s] evs w1) = Inr ()"
    by (simp add: dispatch_single)
  have run: "run_events [s] (ev # evs) w = run_events [s] evs w1"
    using d r by (simp add: dispatch_single)
  note IH = Cons.IH[OF Cons.prems(1,2) ok]
  show ?case
  proof (cases ev)
    case (EpochEnd tr)
    with epoch_end_keeps_latest[of s tr w] d
    have "read_ckpt w1 (latest_ckpt s) = read_ckpt w (latest_ckpt s)" by simp
    with IH EpochEnd show ?thesis unfolding run by (simp split: option.splits)
  next
    case (BatchEnd tr)
    with on_batch_end_nonzero[OF Cons.prems(1,2), of tr w] d
    have "w1 = (if global_step tr mod n = 0 then SaveCheckpoint (latest_ckpt s) tr # w else w)"
      by simp
    with IH BatchEnd show ?thesis unfolding run by (simp split: option.splits)
  qed
qed

lemma last_qualifying_steps:
  "map_option global_step (last_qualifying n evs) =
     (if qualifying_steps n evs = [] then None else Some (last (qualifying_steps n evs)))"
proof (induction evs)
  case Nil
  then show ?case by simp
next
  case (Cons ev evs)
  then show ?case by (cases ev) (auto split: option.splits)
qed

lemma qualifying_steps_subset: "set (qualifying_steps n evs) \<subseteq> set (batch_steps evs)"
proof (induction evs)
  case Nil
  then show ?case by simp
next
  case (Cons ev evs)
  then show ?case by (cases ev) auto
qed

lemma qualifying_steps_sorted: "sorted (batch_steps evs) \<Longrightarrow> sorted (qualifying_steps n evs)"
proof (induction evs)
  case Nil
  then show ?case by simp
next
  case (Cons ev evs)
  then show ?case using qualifying_steps_subset[of n evs] by (cases ev) auto
qed

lemma sorted_last_Max: "sorted xs \<Longrightarrow> xs \<noteq> [] \<Longrightarrow> last xs = Max (set (xs :: int list))"
proof (induction xs)
  case Nil
  then show ?case by simp
next
  case (Cons x xs)
  show ?case
  proof (cases "xs = []")
    case True
    then show ?thesis by simp
  next
    case False
    with Cons have "last xs = Max (set xs)" by simp
    moreover from Cons.prems False have "x \<le> Max (set xs)"
      by (metis List.finite_set Max_ge_iff last_in_set set_empty sorted_simps(2) calculation)
    ultimately show ?thesis using False by (simp add: max_def)
  qed
qed

lemmas eval_simps =
  demo_saver_def at_def epoch_ckpt_def latest_ckpt_def final_ckpt_def path_join_def
  str_int_def digits.simps digit_char_def on_epoch_end_def on_batch_end_def py_mod_def
  save_checkpoint_def save_final_checkpoint_def

text \<open>
  Claim C2. With a non-zero epoch cadence \<open>Ne\<close> (in particular every positive one), the
  epoch-end handler returns normally for every epoch \<open>E\<close> it is given, and it writes a
  checkpoint exactly when \<open>E mod Ne = 0\<close>. The write goes to the file
  \<^verbatim>\<open>{prefix}_epoch_{E}.ckpt\<close> of the output directory; the files of two different
  epochs are different files, so whatever events follow, the checkpoint of epoch \<open>E\<close>
  keeps its content as long as no epoch-end event carries the epoch \<open>E\<close> again.
\<close>

theorem epoch_checkpoint_iff_cadence:
  "save_every_n_epochs s \<noteq> 0 \<longrightarrow>
     on_epoch_end s tr w =
       (Inr (), if current_epoch tr mod save_every_n_epochs s = 0
                then SaveCheckpoint (epoch_ckpt s (current_epoch tr)) tr # w else w)
     \<and> epoch_ckpt s E = path_join (output_path s) (filename_prefix s @ ''_epoch_'' @ str_int E @ ''.ckpt'')
     \<and> (epoch_ckpt s E = epoch_ckpt s E' \<longleftrightarrow> E = E')
     \<and> (E \<notin> set (epochs_ended evs) \<longrightarrow>
          read_ckpt (snd (run_events [s] evs w)) (epoch_ckpt s E) = read_ckpt w (epoch_ckpt s E))"
  using on_epoch_end_nonzero[of s tr w] epoch_ckpt_inj[of s E E']
    run_events_keeps_other_epochs[of E evs s w]
  by (simp add: epoch_ckpt_def)

text \<open>
  C2 at a concrete input: cadence 2, epochs 4 (saved) and 5 (not saved), and the file of
  epoch 4 surviving a batch-end event and the end of epoch 6.
\<close>

theorem epoch_checkpoint_iff_cadence_witness:
  "save_every_n_epochs (demo_saver 2 None) \<noteq> 0
   \<and> on_epoch_end (demo_saver 2 None) (at 4 40) [] =
       (Inr (), [SaveCheckpoint ''models/demo_epoch_4.ckpt'' (at 4 40)])
   \<and> on_epoch_end (demo_saver 2 None) (at 5 50) [] = (Inr (), [])
   \<and> epoch_ckpt (demo_saver 2 None) 4 \<noteq> epoch_ckpt (demo_saver 2 None) 6
   \<and> 4 \<notin> set (epochs_ended [BatchEnd (at 5 50), EpochEnd (at 6 60)])
   \<and> read_ckpt (snd (run_events [demo_saver 2 None] [BatchEnd (at 5 50), EpochEnd (at 6 60)]
        [SaveCheckpoint ''models/demo_epoch_4.ckpt'' (at 4 40)])) ''models/demo_epoch_4.ckpt'' = Some (at 4 40)"
  using epoch_checkpoint_iff_cadence[of "demo_saver 2 None" "at 4 40" "[]" 4 6 "[]"]
    epoch_checkpoint_iff_cadence[of "demo_saver 2 None" "at 5 50" "[]" 4 6 "[]"]
    epoch_checkpoint_iff_cadence[of "demo_saver 2 None" "at 4 40"
      "[SaveCheckpoint ''models/demo_epoch_4.ckpt'' (at 4 40)]" 4 6
      "[BatchEnd (at 5 50), EpochEnd (at 6 60)]"]
  by (simp add: eval_simps)

text \<open>
  Claim C3. When the step cadence is set to a non-zero \<open>Ns\<close>, the step-end handler
  writes exactly when the global step \<open>S\<close> satisfies \<open>S mod Ns = 0\<close>, always to the
  one file \<^verbatim>\<open>{prefix}_latest.ckpt\<close>. After any sequence of events that the callbacks
  survive, that file holds the state of the last qualifying step delivered; the engine
  only advances its global step, and for steps delivered in non-decreasing order the last
  qualifying step is the greatest one seen. Without a qualifying step the file is left
  as it was. When the step cadence is unset, the handler does nothing and no run
  ever writes the latest file. (A step cadence of zero raises; see C8.)
\<close>

theorem latest_checkpoint_step_cadence:
  "(save_every_n_steps s = Some n \<and> n \<noteq> 0 \<longrightarrow>
      on_batch_end s tr w =
        (Inr (), if global_step tr mod n = 0 then SaveCheckpoint (latest_ckpt s) tr # w else w))
   \<and> latest_ckpt s = path_join (output_path s) (filename_prefix s @ ''_latest.ckpt'')
   \<and> (save_every_n_steps s = Some n \<and> n \<noteq> 0 \<and> fst (run_events [s] evs w) = Inr ()
        \<and> qualifying_steps n evs \<noteq> [] \<longrightarrow>
          map_option global_step (read_ckpt (snd (run_events [s] evs w)) (latest_ckpt s)) =
            Some (last (qualifying_steps n evs))
          \<and> (sorted (batch_steps evs) \<longrightarrow>
               last (qualifying_steps n evs) = Max (set (qualifying_steps n evs))))
   \<and> (save_every_n_steps s = Some n \<and> n \<noteq> 0 \<and> fst (run_events [s] evs w) = Inr ()
        \<and> qualifying_steps n evs = [] \<longrightarrow>
          read_ckpt (snd (run_events [s] evs w)) (latest_ckpt s) = read_ckpt w (latest_ckpt s))
   \<and> (save_every_n_steps s = None \<longrightarrow>
        on_batch_end s tr w = (Inr (), w)
        \<and> writes_to (latest_ckpt s) (snd (run_events [s] evs w)) = writes_to (latest_ckpt s) w)"
proof -
  have a: "on_batch_end s tr w =
        (Inr (), if global_step tr mod n = 0 then SaveCheckpoint (latest_ckpt s) tr # w else w)"
    if "save_every_n_steps s = Some n" "n \<noteq> 0"
    using that by (rule on_batch_end_nonzero)
  have b: "map_option global_step (read_ckpt (snd (run_events [s] evs w)) (latest_ckpt s)) =
            Some (last (qualifying_steps n evs))"
    if "save_every_n_steps s = Some n" "n \<noteq> 0" "fst (run_events [s] evs w) = Inr ()"
       "qualifying_steps n evs \<noteq> []"
  proof -
    from last_qualifying_steps[of n evs] that(4)
    obtain t where t: "last_qualifying n evs = Some t" "global_step t = last (qualifying_steps n evs)"
      by (cases "last_qualifying n evs") auto
    with run_events_latest[OF that(1,2,3)] show ?thesis by simp
  qed
  have c: "last (qualifying_steps n evs) = Max (set (qualifying_steps n evs))"
    if "qualifying_steps n evs \<noteq> []" "sorted (batch_steps evs)"
    using that by (intro sorted_last_Max qualifying_steps_sorted)
  have d: "read_ckpt (snd (run_events [s] evs w)) (latest_ckpt s) = read_ckpt w (latest_ckpt s)"
    if "save_every_n_steps s = Some n" "n \<noteq> 0" "fst (run_events [s] evs w) = Inr ()"
       "qualifying_steps n evs = []"
  proof -
    from last_qualifying_steps[of n evs] that(4) have "last_qualifying n evs = None"
      by simp
    with run_events_latest[OF that(1,2,3)] show ?thesis by simp
  qed
  have e: "on_batch_end s tr w = (Inr (), w)
        \<and> writes_to (latest_ckpt s) (snd (run_events [s] evs w)) = writes_to (latest_ckpt s) w"
    if "save_every_n_steps s = None"
    using that by (simp add: on_batch_end_unset run_events_unset_no_latest_write)
  from a b c d e show ?thesis
    by (simp add: latest_ckpt_def)
qed

text \<open>
  C3 at a concrete input: cadence 2 and the steps 1 to 5 with an epoch end in between
  leave step 4 in the latest file; with the cadence unset nothing is written.
\<close>

theorem latest_checkpoint_step_cadence_witness:
  "save_every_n_steps (demo_saver 1 (Some 2)) = Some 2 \<and> (2::int) \<noteq> 0
   \<and> on_batch_end (demo_saver 1 (Some 2)) (at 0 4) [] =
       (Inr (), [SaveCheckpoint ''models/demo_latest.ckpt'' (at 0 4)])
   \<and> on_batch_end (demo_saver 1 (Some 2)) (at 0 5) [] = (Inr (), [])
   \<and> fst (run_events [demo_saver 1 (Some 2)]
        [BatchEnd (at 0 1), BatchEnd (at 0 2), EpochEnd (at 0 2), BatchEnd (at 1 3),
         BatchEnd (at 1 4), BatchEnd (at 1 5)] []) = Inr ()
   \<and> qualifying_steps 2
        [BatchEnd (at 0 1), BatchEnd (at 0 2), EpochEnd (at 0 2), BatchEnd (at 1 3),
         BatchEnd (at 1 4), BatchEnd (at 1 5)] = [2, 4]
   \<and> sorted (batch_steps
        [BatchEnd (at 0 1), BatchEnd (at 0 2), EpochEnd (at 0 2), BatchEnd (at 1 3),
         BatchEnd (at 1 4), BatchEnd (at 1 5)])
   \<and> map_option global_step (read_ckpt (snd (run_events [demo_saver 1 (Some 2)]
        [BatchEnd (at 0 1), BatchEnd (at 0 2), EpochEnd (at 0 2), BatchEnd (at 1 3),
         BatchEnd (at 1 4), BatchEnd (at 1 5)] [])) ''models/demo_latest.ckpt'') = Some 4
   \<and> save_every_n_steps (demo_saver 1 None) = None
   \<and> on_batch_end (demo_saver 1 None) (at 0 4) [] = (Inr (), [])
   \<and> writes_to ''models/demo_latest.ckpt'' (snd (run_events [demo_saver 1 None]
        [BatchEnd (at 0 0), EpochEnd (at 0 1), BatchEnd (at 1 2)] [])) = 0"
  using latest_checkpoint_step_cadence[of "demo_saver 1 (Some 2)" 2 "at 0 4" "[]"
      "[BatchEnd (at 0 1), BatchEnd (at 0 2), EpochEnd (at 0 2), BatchEnd (at 1 3),
        BatchEnd (at 1 4), BatchEnd (at 1 5)]"]
    latest_checkpoint_step_cadence[of "demo_saver 1 (Some 2)" 2 "at 0 5" "[]" "[]"]
    latest_checkpoint_step_cadence[of "demo_saver 1 None" 2 "at 0 4" "[]"
      "[BatchEnd (at 0 0), EpochEnd (at 0 1), BatchEnd (at 1 2)]"]
  by (simp add: eval_simps)

subsection \<open>Cadences: validation and the start boundary\<close>

text \<open>
  Claim C8. The constructor stores the two cadences as given, whatever integers they
  are. With an epoch cadence of at least 1 the modulo test of the epoch-end handler is
  defined and the handler returns normally; so does the step-end handler with a step
  cadence of at least 1, or unset. With an epoch cadence of 0 the epoch-end handler
  raises ZeroDivisionError at every call, so a run fails at its first epoch-end event,
  having written nothing; likewise the step-end handler with a step cadence of 0.
\<close>

theorem cadence_not_validated:
  "save_every_n_epochs (fst (CheckpointSaver p f ne ns w)) = ne
   \<and> save_every_n_steps (fst (CheckpointSaver p f ne ns w)) = ns
   \<and> (1 \<le> save_every_n_epochs s \<longrightarrow>
        py_mod (current_epoch tr) (save_every_n_epochs s) = Inr (current_epoch tr mod save_every_n_epochs s)
        \<and> fst (on_epoch_end s tr w) = Inr ())
   \<and> (save_every_n_steps s = Some n \<and> 1 \<le> n \<longrightarrow>
        py_mod (global_step tr) n = Inr (global_step tr mod n)
        \<and> fst (on_batch_end s tr w) = Inr ())
   \<and> (save_every_n_steps s = None \<longrightarrow> fst (on_batch_end s tr w) = Inr ())
   \<and> (save_every_n_epochs s = 0 \<longrightarrow>
        on_epoch_end s tr w = (Inl ZeroDivisionError, w)
        \<and> run_events [s] (EpochEnd tr # evs) w = (Inl ZeroDivisionError, w))
   \<and> (save_every_n_steps s = Some 0 \<longrightarrow>
        on_batch_end s tr w = (Inl ZeroDivisionError, w)
        \<and> run_events [s] (BatchEnd tr # evs) w = (Inl ZeroDivisionError, w))"
  by (simp add: CheckpointSaver_def on_epoch_end_def on_batch_end_def py_mod_def Let_def)

text \<open>
  C8 at concrete inputs: the cadences 3 and 5 on one side, 0 on the other.
\<close>

theorem cadence_not_validated_witness:
  "save_every_n_epochs (fst (CheckpointSaver ''models'' ''demo'' 0 (Some 0) [])) = 0
   \<and> save_every_n_steps (fst (CheckpointSaver ''models'' ''demo'' 0 (Some 0) [])) = Some 0
   \<and> fst (on_epoch_end (demo_saver 3 (Some 5)) (at 7 70) []) = Inr ()
   \<and> fst (on_batch_end (demo_saver 3 (Some 5)) (at 7 70) []) = Inr ()
   \<and> fst (on_batch_end (demo_saver 3 None) (at 7 70) []) = Inr ()
   \<and> on_epoch_end (demo_saver 0 (Some 0)) (at 0 0) [] = (Inl ZeroDivisionError, [])
   \<and> run_events [demo_saver 0 None] [EpochEnd (at 0 0), EpochEnd (at 1 1)] [] = (Inl ZeroDivisionError, [])
   \<and> on_batch_end (demo_saver 1 (Some 0)) (at 0 0) [] = (Inl ZeroDivisionError, [])
   \<and> run_events [demo_saver 1 (Some 0)] [BatchEnd (at 0 0), EpochEnd (at 0 1)] [] = (Inl ZeroDivisionError, [])"
  using cadence_not_validated[of "''models''" "''demo''" 0 "Some 0" "[]" "demo_saver 3 (Some 5)" "at 7 70" 5 "[]"]
    cadence_not_validated[of "''models''" "''demo''" 0 "Some 0" "[]" "demo_saver 3 None" "at 7 70" 5 "[]"]
    cadence_not_validated[of "''models''" "''demo''" 0 "Some 0" "[]" "demo_saver 0 (Some 0)" "at 0 0" 0 "[EpochEnd (at 1 1)]"]
    cadence_not_validated[of "''models''" "''demo''" 0 "Some 0" "[]" "demo_saver 0 None" "at 0 0" 0 "[EpochEnd (at 1 1)]"]
    cadence_not_validated[of "''models''" "''demo''" 0 "Some 0" "[]" "demo_saver 1 (Some 0)" "at 0 0" 0 "[EpochEnd (at 0 1)]"]
  by (simp add: demo_saver_def at_def)

text \<open>
  Claim C9. Epoch 0 meets every non-zero epoch cadence (so every positive one, however
  large): the epoch-end event of epoch 0 writes \<^verbatim>\<open>{prefix}_epoch_0.ckpt\<close>. Global step 0
  meets every non-zero step cadence: a step-end event at step 0 writes the latest
  snapshot whenever the step cadence is set.
\<close>

theorem start_boundary_checkpoints:
  "(save_every_n_epochs s \<noteq> 0 \<and> current_epoch tr = 0 \<longrightarrow>
      on_epoch_end s tr w =
        (Inr (), SaveCheckpoint (path_join (output_path s) (filename_prefix s @ ''_epoch_0.ckpt'')) tr # w))
   \<and> (save_every_n_steps s = Some n \<and> n \<noteq> 0 \<and> global_step tr = 0 \<longrightarrow>
        on_batch_end s tr w =
          (Inr (), SaveCheckpoint (path_join (output_path s) (filename_prefix s @ ''_latest.ckpt'')) tr # w))"
  by (simp add: on_epoch_end_def on_batch_end_def py_mod_def save_checkpoint_def epoch_ckpt_def
        latest_ckpt_def str_int_def digits.simps digit_char_def)

text \<open>
  C9 at a concrete input: the cadences 1000000 and 10000.
\<close>

theorem start_boundary_checkpoints_witness:
  "save_every_n_epochs (demo_saver 1000000 (Some 10000)) \<noteq> 0
   \<and> current_epoch (at 0 0) = 0
   \<and> on_epoch_end (demo_saver 1000000 (Some 10000)) (at 0 0) [] =
       (Inr (), [SaveCheckpoint ''models/demo_epoch_0.ckpt'' (at 0 0)])
   \<and> on_batch_end (demo_saver 1000000 (Some 10000)) (at 0 0) [] =
       (Inr (), [SaveCheckpoint ''models/demo_latest.ckpt'' (at 0 0)])"
  using start_boundary_checkpoints[of "demo_saver 1000000 (Some 10000)" "at 0 0" "[]" 10000]
  by (simp add: demo_saver_def at_def path_join_def)

section \<open>Properties of composite datasets\<close>

lemma cumulative_Nil: "cumulative lo ns = [] \<longleftrightarrow> ns = []"
  by (cases ns) simp_all

lemma cumulative_last: "ns \<noteq> [] \<Longrightarrow> last (cumulative lo ns) = lo + sum_list ns"
proof (induction ns arbitrary: lo)
  case Nil
  then show ?case by simp
next
  case (Cons n ns)
  show ?case
  proof (cases "ns = []")
    case True
    then show ?thesis by simp
  next
    case False
    with Cons.IH[of "lo + n"] show ?thesis
      by (simp add: cumulative_Nil add.assoc)
  qed
qed

lemma length_cumulative: "length (cumulative lo ns) = length ns"
  by (induction ns arbitrary: lo) simp_all

lemma composite_length_sum:
  "MultiplePrefixDataset ds = Inr c \<Longrightarrow> composite_length c = sum_list (map pd_length ds)"
proof -
  assume a: "MultiplePrefixDataset ds = Inr c"
  then have c: "boundaries c = cumulative 0 (map pd_length ds)" and ne: "ds \<noteq> []"
    by (auto simp: MultiplePrefixDataset_def split: if_splits)
  from ne obtain d ds' where "ds = d # ds'" by (cases ds) auto
  then have "composite_length c = last (cumulative 0 (map pd_length ds))"
    by (simp add: composite_length_def c)
  with ne show ?thesis by (simp add: cumulative_last)
qed

lemma locate_cumulative:
  "lo \<le> i \<Longrightarrow> i < lo + sum_list ns \<Longrightarrow>
   \<exists>m j. locate (cumulative lo ns) k lo i = Some (k + m, j) \<and> m < length ns \<and> j < ns ! m
         \<and> i = lo + sum_list (take m ns) + j"
proof (induction ns arbitrary: lo k)
  case Nil
  then show ?case by simp
next
  case (Cons n ns)
  show ?case
  proof (cases "i < lo + n")
    case True
    with Cons.prems have "locate (cumulative lo (n # ns)) k lo i = Some (k + 0, i - lo)
        \<and> 0 < length (n # ns) \<and> i - lo < (n # ns) ! 0 \<and> i = lo + sum_list (take 0 (n # ns)) + (i - lo)"
      by simp
    then show ?thesis by blast
  next
    case False
    then have lo': "lo + n \<le> i" by simp
    from Cons.prems have up: "i < (lo + n) + sum_list ns" by simp
    from Cons.IH[OF lo' up, of "Suc k"] obtain m j where
      mj: "locate (cumulative (lo + n) ns) (Suc k) (lo + n) i = Some (Suc k + m, j)"
        "m < length ns" "j < ns ! m" "i = lo + n + sum_list (take m ns) + j"
      by blast
    with False have "locate (cumulative lo (n # ns)) k lo i = Some (k + Suc m, j)
        \<and> Suc m < length (n # ns) \<and> j < (n # ns) ! Suc m
        \<and> i = lo + sum_list (take (Suc m) (n # ns)) + j"
      by simp
    then show ?thesis by blast
  qed
qed

lemma locate_past_end:
  "lo + sum_list ns \<le> i \<Longrightarrow> locate (cumulative lo ns) k lo i = None"
  by (induction ns arbitrary: lo k) (simp_all add: add.assoc)

lemma sum_take_Suc: "m < length ns \<Longrightarrow> sum_list (take (Suc m) ns) = sum_list (take m ns) + (ns ! m :: nat)"
  by (simp add: take_Suc_conv_app_nth)

lemma sum_take_mono: "m \<le> m' \<Longrightarrow> sum_list (take m ns) \<le> sum_list (take m' (ns :: nat list))"
proof -
  assume "m \<le> m'"
  then have "take m' ns = take m ns @ take (m' - m) (drop m ns)"
    by (metis le_add_diff_inverse take_add)
  then show ?thesis by simp
qed

lemma owner_less:
  assumes "m < m'" "m < length ns" "j < ns ! m"
  shows "sum_list (take m ns) + j < sum_list (take m' (ns :: nat list)) + j'"
proof -
  from assms(2,3) have "sum_list (take m ns) + j < sum_list (take (Suc m) ns)"
    by (simp add: sum_take_Suc)
  also from assms(1) have "\<dots> \<le> sum_list (take m' ns)"
    by (intro sum_take_mono) simp
  finally show ?thesis by simp
qed

lemma owner_unique:
  assumes "m < length ns" "j < ns ! m" "m' < length ns" "j' < ns ! m'"
    and eq: "sum_list (take m ns) + j = sum_list (take m' (ns :: nat list)) + j'"
  shows "m = m' \<and> j = j'"
proof -
  have "\<not> m < m'"
  proof
    assume "m < m'"
    from owner_less[OF this assms(1,2), of j'] eq show False by simp
  qed
  moreover have "\<not> m' < m"
  proof
    assume "m' < m"
    from owner_less[OF this assms(3,4), of j] eq show False by simp
  qed
  ultimately have "m = m'" by simp
  with eq show ?thesis by simp
qed

lemma resolve_owner:
  assumes c: "MultiplePrefixDataset ds = Inr c" and i: "i < composite_length c"
  shows "\<exists>k j. resolve c i = Some (k, j) \<and> k < length ds \<and> j < pd_length (ds ! k)
           \<and> i = sum_list (map pd_length (take k ds)) + j
           \<and> (\<forall>k' j'. k' < length ds \<and> j' < pd_length (ds ! k')
                 \<and> i = sum_list (map pd_length (take k' ds)) + j' \<longrightarrow> k' = k \<and> j' = j)"
proof -
  let ?ns = "map pd_length ds"
  from c have b: "boundaries c = cumulative 0 ?ns"
    by (auto simp: MultiplePrefixDataset_def split: if_splits)
  from i composite_length_sum[OF c] have "i < 0 + sum_list ?ns" by simp
  from locate_cumulative[OF _ this, of 0] obtain m j where
    mj: "locate (cumulative 0 ?ns) 0 0 i = Some (m, j)" "m < length ?ns" "j < ?ns ! m"
      "i = sum_list (take m ?ns) + j"
    by auto
  have uniq: "k' = m \<and> j' = j"
    if "k' < length ds \<and> j' < pd_length (ds ! k') \<and> i = sum_list (map pd_length (take k' ds)) + j'"
    for k' j'
  proof -
    from that mj(4) have "sum_list (take k' ?ns) + j' = sum_list (take m ?ns) + j"
      by (simp add: take_map)
    with owner_unique[of k' ?ns j' m j] that mj(2,3) show ?thesis by simp
  qed
  from mj b have "resolve c i = Some (m, j) \<and> m < length ds \<and> j < pd_length (ds ! m)
      \<and> i = sum_list (map pd_length (take m ds)) + j"
    by (simp add: resolve_def take_map)
  with uniq show ?thesis by blast
qed

lemma resolve_past_end:
  assumes c: "MultiplePrefixDataset ds = Inr c" and i: "composite_length c \<le> i"
  shows "resolve c i = None"
proof -
  from c have b: "boundaries c = cumulative 0 (map pd_length ds)"
    by (auto simp: MultiplePrefixDataset_def split: if_splits)
  from i composite_length_sum[OF c] have "0 + sum_list (map pd_length ds) \<le> i" by simp
  from locate_past_end[OF this] b show ?thesis by (simp add: resolve_def)
qed

text \<open>
  Claim C7. A composite dataset is built from at least two members (fewer fail with
  ConfigurationError). Its length is the sum of the member lengths, and every global
  index \<open>i\<close> below that sum resolves to one member \<open>k\<close> and a local offset \<open>j\<close> within
  that member, with \<open>i\<close> equal to the lengths of the members before \<open>k\<close> plus \<open>j\<close>; no
  other member and offset account for \<open>i\<close>. An index from the sum on resolves to
  nothing. For members of lengths 100 and 50 the length is 150 and index 120 is local
  index 20 of the second member (member number 1).
\<close>

theorem composite_length_and_resolution:
  "(length ds < 2 \<longrightarrow> MultiplePrefixDataset ds = Inl ConfigurationError)
   \<and> (2 \<le> length ds \<longrightarrow>
        MultiplePrefixDataset ds = Inr \<lparr>members = ds, boundaries = cumulative 0 (map pd_length ds)\<rparr>)
   \<and> (MultiplePrefixDataset ds = Inr c \<longrightarrow>
        composite_length c = sum_list (map pd_length ds)
        \<and> (i < composite_length c \<longrightarrow>
             (\<exists>k j. resolve c i = Some (k, j) \<and> k < length ds \<and> j < pd_length (ds ! k)
                \<and> i = sum_list (map pd_length (take k ds)) + j
                \<and> (\<forall>k' j'. k' < length ds \<and> j' < pd_length (ds ! k')
                      \<and> i = sum_list (map pd_length (take k' ds)) + j' \<longrightarrow> k' = k \<and> j' = j)))
        \<and> (composite_length c \<le> i \<longrightarrow> resolve c i = None))
   \<and> (pd_length a = 100 \<and> pd_length b = 50 \<and> MultiplePrefixDataset [a, b] = Inr c' \<longrightarrow>
        composite_length c' = 150 \<and> resolve c' 120 = Some (1, 20))"
proof -
  have 1: "length ds < 2 \<longrightarrow> MultiplePrefixDataset ds = Inl ConfigurationError"
    by (simp add: MultiplePrefixDataset_def)
  have 2: "2 \<le> length ds \<longrightarrow>
        MultiplePrefixDataset ds = Inr \<lparr>members = ds, boundaries = cumulative 0 (map pd_length ds)\<rparr>"
    by (simp add: MultiplePrefixDataset_def)
  have 3: "MultiplePrefixDataset ds = Inr c \<longrightarrow>
        composite_length c = sum_list (map pd_length ds)
        \<and> (i < composite_length c \<longrightarrow>
             (\<exists>k j. resolve c i = Some (k, j) \<and> k < length ds \<and> j < pd_length (ds ! k)
                \<and> i = sum_list (map pd_length (take k ds)) + j
                \<and> (\<forall>k' j'. k' < length ds \<and> j' < pd_length (ds ! k')
                      \<and> i = sum_list (map pd_length (take k' ds)) + j' \<longrightarrow> k' = k \<and> j' = j)))
        \<and> (composite_length c \<le> i \<longrightarrow> resolve c i = None)"
  proof (intro impI conjI)
    assume c: "MultiplePrefixDataset ds = Inr c"
    show "composite_length c = sum_list (map pd_length ds)"
      by (rule composite_length_sum[OF c])
    show "resolve c i = None" if "composite_length c \<le> i"
      by (rule resolve_past_end[OF c that])
    show "\<exists>k j. resolve c i = Some (k, j) \<and> k < length ds \<and> j < pd_length (ds ! k)
                \<and> i = sum_list (map pd_length (take k ds)) + j
                \<and> (\<forall>k' j'. k' < length ds \<and> j' < pd_length (ds ! k')
                      \<and> i = sum_list (map pd_length (take k' ds)) + j' \<longrightarrow> k' = k \<and> j' = j)"
      if "i < composite_length c"
      by (rule resolve_owner[OF c that])
  qed
  have 4: "pd_length a = 100 \<and> pd_length b = 50 \<and> MultiplePrefixDataset [a, b] = Inr c' \<longrightarrow>
        composite_length c' = 150 \<and> resolve c' 120 = Some (1, 20)"
    by (auto simp: MultiplePrefixDataset_def composite_length_def resolve_def)
  show ?thesis
    by (rule conjI[OF 1 conjI[OF 2 conjI[OF 3 4]]])
qed

text \<open>
  C7 at a concrete input: the directories A (100 items) and B (50 items).
\<close>

theorem composite_length_and_resolution_witness:
  "MultiplePrefixDataset [demo_member ''A'' 100] = Inl ConfigurationError
   \<and> MultiplePrefixDataset [demo_member ''A'' 100, demo_member ''B'' 50] =
       Inr \<lparr>members = [demo_member ''A'' 100, demo_member ''B'' 50], boundaries = [100, 150]\<rparr>
   \<and> composite_length \<lparr>members = [demo_member ''A'' 100, demo_member ''B'' 50], boundaries = [100, 150]\<rparr> = 150
   \<and> resolve \<lparr>members = [demo_member ''A'' 100, demo_member ''B'' 50], boundaries = [100, 150]\<rparr> 120 = Some (1, 20)
   \<and> resolve \<lparr>members = [demo_member ''A'' 100, demo_member ''B'' 50], boundaries = [100, 150]\<rparr> 150 = None"
  using composite_length_and_resolution[of "[demo_member ''A'' 100]" _ 0 "demo_member ''A'' 100" "demo_member ''B'' 50"
      "\<lparr>members = [demo_member ''A'' 100, demo_member ''B'' 50], boundaries = [100, 150]\<rparr>"]
    composite_length_and_resolution[of "[demo_member ''A'' 100, demo_member ''B'' 50]"
      "\<lparr>members = [demo_member ''A'' 100, demo_member ''B'' 50], boundaries = [100, 150]\<rparr>" 150
      "demo_member ''A'' 100" "demo_member ''B'' 50"
      "\<lparr>members = [demo_member ''A'' 100, demo_member ''B'' 50], boundaries = [100, 150]\<rparr>"]
  by (simp add: demo_member_def MultiplePrefixDataset_def composite_length_def resolve_def)

section \<open>Properties of train\<close>

subsection \<open>Splitting and loading\<close>

lemma split_str_nonempty: "split_str s sep \<noteq> []"
  by (induction s) (auto split: list.splits)

lemma length_split_str: "length (split_str s sep) = Suc (length (filter (\<lambda>c. c = sep) s))"
proof (induction s)
  case Nil
  then show ?case by simp
next
  case (Cons c cs)
  then show ?case
    using split_str_nonempty[of cs sep] by (auto split: list.splits)
qed

lemma load_all_eq:
  "load_all env cfg dirs acc w =
     (acc @ map (dataset_at env cfg) dirs,
      rev (map (\<lambda>d. LoadDataset d (batch_size cfg) (normalize_prefix cfg)) dirs) @ w)"
  by (induction dirs arbitrary: acc w) (simp_all add: TokenPrefixDataset_def dataset_at_def)

lemma prepare_datasets_too_few:
  "merge_datasets cfg \<Longrightarrow> length (split_str (data_dir cfg) CHR '','') < 2 \<Longrightarrow>
   prepare_datasets env cfg w = (Inl ValueError, w)"
  by (simp add: prepare_datasets_def)

lemma prepare_datasets_merged:
  "merge_datasets cfg \<Longrightarrow> 2 \<le> length (split_str (data_dir cfg) CHR '','') \<Longrightarrow>
   prepare_datasets env cfg w =
     (Inr (Merged \<lparr>members = map (dataset_at env cfg) (split_str (data_dir cfg) CHR '',''),
                   boundaries = cumulative 0 (map pd_length (map (dataset_at env cfg) (split_str (data_dir cfg) CHR '','')))\<rparr>),
      rev (map (\<lambda>d. LoadDataset d (batch_size cfg) (normalize_prefix cfg)) (split_str (data_dir cfg) CHR '','')) @ w)"
  by (simp add: prepare_datasets_def load_all_eq MultiplePrefixDataset_def Let_def)

lemma prepare_datasets_single:
  "\<not> merge_datasets cfg \<Longrightarrow>
   prepare_datasets env cfg w =
     (Inr (Single (dataset_at env cfg (data_dir cfg))),
      LoadDataset (data_dir cfg) (batch_size cfg) (normalize_prefix cfg) # w)"
  by (simp add: prepare_datasets_def TokenPrefixDataset_def dataset_at_def)

subsection \<open>What a trace holds\<close>

lemma writes_to_append: "writes_to p (xs @ w) = writes_to p xs + writes_to p w"
  by (induction p xs rule: writes_to.induct) simp_all

lemma loads_append: "loads (xs @ w) = loads xs @ loads w"
  by (induction xs rule: loads.induct) simp_all

lemma trainer_calls_append: "trainer_calls (xs @ w) = trainer_calls xs @ trainer_calls w"
  by (induction xs rule: trainer_calls.induct) simp_all

lemma fit_loaders_append: "fit_loaders (xs @ w) = fit_loaders xs @ fit_loaders w"
  by (induction xs rule: fit_loaders.induct) simp_all

lemma loads_of_loads: "loads (map (\<lambda>d. LoadDataset d b n) dirs) = map (\<lambda>d. (d, b, n)) dirs"
  by (induction dirs) simp_all

lemma trainer_calls_of_loads: "trainer_calls (map (\<lambda>d. LoadDataset d b n) dirs) = []"
  by (induction dirs) simp_all

lemma fit_loaders_of_loads: "fit_loaders (map (\<lambda>d. LoadDataset d b n) dirs) = []"
  by (induction dirs) simp_all

text \<open>A list of checkpoint writes, as effects.\<close>

lemma writes_only_loads: "loads (map (\<lambda>(p, tr). SaveCheckpoint p tr) saves @ w) = loads w"
  by (induction saves) auto

lemma writes_only_trainer_calls:
  "trainer_calls (map (\<lambda>(p, tr). SaveCheckpoint p tr) saves @ w) = trainer_calls w"
  by (induction saves) auto

lemma writes_only_fit_loaders:
  "fit_loaders (map (\<lambda>(p, tr). SaveCheckpoint p tr) saves @ w) = fit_loaders w"
  by (induction saves) auto

lemma writes_to_loads: "writes_to p (map (\<lambda>d. LoadDataset d b n) dirs) = 0"
  by (induction dirs) simp_all

lemma writes_to_rev_loads: "writes_to p (rev (map (\<lambda>d. LoadDataset d b n) dirs) @ w) = writes_to p w"
  using writes_to_loads[of p b n "rev dirs"] by (simp add: writes_to_append rev_map)

lemma prepare_datasets_no_write:
  "writes_to p (snd (prepare_datasets env cfg w)) = writes_to p w"
proof (cases "merge_datasets cfg")
  case True
  show ?thesis
  proof (cases "length (split_str (data_dir cfg) CHR '','') < 2")
    case lt: True
    from prepare_datasets_too_few[OF True lt] show ?thesis by simp
  next
    case False
    then have "2 \<le> length (split_str (data_dir cfg) CHR '','')" by simp
    from prepare_datasets_merged[OF True this] show ?thesis
      by (simp add: writes_to_rev_loads)
  qed
next
  case False
  from prepare_datasets_single[OF False] show ?thesis by simp
qed

lemma prepare_datasets_trace:
  "trainer_calls (snd (prepare_datasets env cfg w)) = trainer_calls w"
  "fit_loaders (snd (prepare_datasets env cfg w)) = fit_loaders w"
proof -
  have "trainer_calls (snd (prepare_datasets env cfg w)) = trainer_calls w
      \<and> fit_loaders (snd (prepare_datasets env cfg w)) = fit_loaders w"
  proof (cases "merge_datasets cfg")
    case True
    show ?thesis
    proof (cases "length (split_str (data_dir cfg) CHR '','') < 2")
      case lt: True
      from prepare_datasets_too_few[OF True lt] show ?thesis by simp
    next
      case False
      then have "2 \<le> length (split_str (data_dir cfg) CHR '','')" by simp
      from prepare_datasets_merged[OF True this]
        trainer_calls_of_loads[of "batch_size cfg" "normalize_prefix cfg" "rev (split_str (data_dir cfg) CHR '','')"]
        fit_loaders_of_loads[of "batch_size cfg" "normalize_prefix cfg" "rev (split_str (data_dir cfg) CHR '','')"]
      show ?thesis
        by (simp add: trainer_calls_append fit_loaders_append rev_map)
    qed
  next
    case False
    from prepare_datasets_single[OF False] show ?thesis by simp
  qed
  then show "trainer_calls (snd (prepare_datasets env cfg w)) = trainer_calls w"
    "fit_loaders (snd (prepare_datasets env cfg w)) = fit_loaders w"
    by simp_all
qed

lemma prepare_datasets_loads_merged:
  "merge_datasets cfg \<Longrightarrow> 2 \<le> length (split_str (data_dir cfg) CHR '','') \<Longrightarrow>
   loads (snd (prepare_datasets env cfg w)) =
     rev (map (\<lambda>d. (d, batch_size cfg, normalize_prefix cfg)) (split_str (data_dir cfg) CHR '','')) @ loads w"
  using loads_of_loads[of "batch_size cfg" "normalize_prefix cfg" "rev (split_str (data_dir cfg) CHR '','')"]
  by (simp add: prepare_datasets_merged loads_append rev_map)

subsection \<open>The set-up of a run\<close>

lemma train_setup_fail:
  "prepare_datasets env cfg w = (Inl e, w') \<Longrightarrow> train_setup env cfg w = (Inl e, w')"
  by (simp add: train_setup_def)

lemma train_setup_ok:
  "prepare_datasets env cfg w = (Inr d, w') \<Longrightarrow>
   train_setup env cfg w =
     (Inr (locals_of cfg d),
      ConstructTrainer (l_trainer (locals_of cfg d)) # MkDir (output_dir cfg)
        # snd (build_model cfg (model_kwargs_of cfg (int (len_dataset d) * epochs cfg)) w'))"
  by (simp add: train_setup_def build_model_def CheckpointSaver_def locals_of_def saver_of_def Let_def)

lemma build_model_trace:
  "writes_to p (snd (build_model cfg kw w)) = writes_to p w"
  "loads (snd (build_model cfg kw w)) = loads w"
  "trainer_calls (snd (build_model cfg kw w)) = trainer_calls w"
  "fit_loaders (snd (build_model cfg kw w)) = fit_loaders w"
  by (simp_all add: build_model_def)

lemma train_setup_cases:
  obtains (too_few) "merge_datasets cfg" "length (split_str (data_dir cfg) CHR '','') < 2"
      "train_setup env cfg w = (Inl ValueError, w)"
  | (ok) d w' where "\<not> (merge_datasets cfg \<and> length (split_str (data_dir cfg) CHR '','') < 2)"
      "fst (prepare_datasets env cfg w) = Inr d"
      "train_setup env cfg w = (Inr (locals_of cfg d), w')"
      "\<And>p. writes_to p w' = writes_to p w"
      "loads w' = loads (snd (prepare_datasets env cfg w))"
      "trainer_calls w' = l_trainer (locals_of cfg d) # trainer_calls w"
      "fit_loaders w' = fit_loaders w"
proof (cases "merge_datasets cfg \<and> length (split_str (data_dir cfg) CHR '','') < 2")
  case True
  then have "prepare_datasets env cfg w = (Inl ValueError, w)"
    by (simp add: prepare_datasets_too_few)
  from too_few[OF _ _ train_setup_fail[OF this]] True show ?thesis by simp
next
  case False
  have "\<exists>d w'. prepare_datasets env cfg w = (Inr d, w')"
  proof (cases "merge_datasets cfg")
    case True
    with False have "2 \<le> length (split_str (data_dir cfg) CHR '','')" by simp
    from prepare_datasets_merged[OF True this] show ?thesis by blast
  next
    case no: False
    from prepare_datasets_single[OF no] show ?thesis by blast
  qed
  then obtain d w1 where p: "prepare_datasets env cfg w = (Inr d, w1)" by blast
  from prepare_datasets_no_write[of _ env cfg w] p have w1: "writes_to p w1 = writes_to p w" for p
    by simp
  let ?w' = "ConstructTrainer (l_trainer (locals_of cfg d)) # MkDir (output_dir cfg)
        # snd (build_model cfg (model_kwargs_of cfg (int (len_dataset d) * epochs cfg)) w1)"
  show ?thesis
  proof (rule ok[OF False _ train_setup_ok[OF p]])
    show "fst (prepare_datasets env cfg w) = Inr d" using p by simp
    show "writes_to p ?w' = writes_to p w" for p
      by (simp add: build_model_trace w1)
    show "loads ?w' = loads (snd (prepare_datasets env cfg w))"
      using p by (simp add: build_model_trace)
    show "trainer_calls ?w' = l_trainer (locals_of cfg d) # trainer_calls w"
      using prepare_datasets_trace(1)[of env cfg w] p by (simp add: build_model_trace)
    show "fit_loaders ?w' = fit_loaders w"
      using prepare_datasets_trace(2)[of env cfg w] p by (simp add: build_model_trace)
  qed
qed

lemma train_setup_fails_iff:
  "fst (train_setup env cfg w) = Inl e \<longleftrightarrow>
     e = ValueError \<and> merge_datasets cfg \<and> length (split_str (data_dir cfg) CHR '','') < 2"
  by (cases rule: train_setup_cases[of cfg env w]) auto

lemma train_setup_locals:
  "fst (train_setup env cfg w) = Inr l \<Longrightarrow> l = locals_of cfg (l_dataset l)"
  by (cases rule: train_setup_cases[of cfg env w]) (auto simp: locals_of_def)

subsection \<open>The callbacks over a run\<close>

lemma deliver_error: "fst (deliver s ev w) = Inl e \<Longrightarrow> e = ZeroDivisionError"
  by (cases ev)
     (auto simp: on_epoch_end_def on_batch_end_def py_mod_def Let_def split: if_splits option.splits)

lemma deliver_no_final_write:
  "writes_to (final_ckpt s) (snd (deliver s ev w)) = writes_to (final_ckpt s) w"
  by (cases ev)
     (auto simp: on_epoch_end_def on_batch_end_def py_mod_def Let_def save_checkpoint_def
        epoch_ckpt_neq_final latest_ckpt_neq_final split: if_splits option.splits)

lemma run_events_error: "fst (run_events [s] evs w) = Inl e \<Longrightarrow> e = ZeroDivisionError"
proof (induction evs arbitrary: w)
  case Nil
  then show ?case by simp
next
  case (Cons ev evs)
  obtain r w1 where d: "deliver s ev w = (r, w1)" by (cases "deliver s ev w")
  show ?case
  proof (cases r)
    case (Inl e')
    with d Cons.prems deliver_error[of s ev w e'] show ?thesis
      by (simp add: dispatch_single)
  next
    case (Inr u)
    with d Cons.prems Cons.IH[of w1] show ?thesis by (simp add: dispatch_single)
  qed
qed

lemma run_events_no_final_write:
  "writes_to (final_ckpt s) (snd (run_events [s] evs w)) = writes_to (final_ckpt s) w"
proof (induction evs arbitrary: w)
  case Nil
  then show ?case by simp
next
  case (Cons ev evs)
  obtain r w1 where d: "deliver s ev w = (r, w1)" by (cases "deliver s ev w")
  with deliver_no_final_write[of s ev w]
  have keep: "writes_to (final_ckpt s) w1 = writes_to (final_ckpt s) w" by simp
  show ?case
  proof (cases r)
    case (Inl e)
    with d keep show ?thesis by (simp add: dispatch_single)
  next
    case (Inr u)
    with d keep Cons.IH[of w1] show ?thesis by (simp add: dispatch_single)
  qed
qed

lemma deliver_saves_only:
  "\<exists>saves. snd (deliver s ev w) = map (\<lambda>(p, tr). SaveCheckpoint p tr) saves @ w"
proof -
  have "snd (deliver s ev w) = w \<or> (\<exists>p tr. snd (deliver s ev w) = SaveCheckpoint p tr # w)"
    by (cases ev)
       (auto simp: on_epoch_end_def on_batch_end_def py_mod_def Let_def save_checkpoint_def
          split: if_splits option.splits)
  then show ?thesis
  proof
    assume "snd (deliver s ev w) = w"
    then have "snd (deliver s ev w) = map (\<lambda>(p, tr). SaveCheckpoint p tr) [] @ w" by simp
    then show ?thesis by blast
  next
    assume "\<exists>p tr. snd (deliver s ev w) = SaveCheckpoint p tr # w"
    then obtain p tr where "snd (deliver s ev w) = SaveCheckpoint p tr # w" by blast
    then have "snd (deliver s ev w) = map (\<lambda>(p, tr). SaveCheckpoint p tr) [(p, tr)] @ w" by simp
    then show ?thesis by blast
  qed
qed

lemma run_events_saves_only:
  "\<exists>saves. snd (run_events [s] evs w) = map (\<lambda>(p, tr). SaveCheckpoint p tr) saves @ w"
proof (induction evs arbitrary: w)
  case Nil
  have "snd (run_events [s] [] w) = map (\<lambda>(p, tr). SaveCheckpoint p tr) [] @ w" by simp
  then show ?case by blast
next
  case (Cons ev evs)
  obtain r w1 where d: "deliver s ev w = (r, w1)" by (cases "deliver s ev w")
  from deliver_saves_only[of s ev w] d obtain s1 where
    s1: "w1 = map (\<lambda>(p, tr). SaveCheckpoint p tr) s1 @ w" by auto
  show ?case
  proof (cases r)
    case (Inl e)
    with d s1 have "snd (run_events [s] (ev # evs) w) = map (\<lambda>(p, tr). SaveCheckpoint p tr) s1 @ w"
      by (simp add: dispatch_single)
    then show ?thesis by blast
  next
    case (Inr u)
    from Cons.IH[of w1] obtain s2 where
      "snd (run_events [s] evs w1) = map (\<lambda>(p, tr). SaveCheckpoint p tr) s2 @ w1" by blast
    with Inr d s1 have "snd (run_events [s] (ev # evs) w) = map (\<lambda>(p, tr). SaveCheckpoint p tr) (s2 @ s1) @ w"
      by (simp add: dispatch_single)
    then show ?thesis by blast
  qed
qed

lemma run_events_trace:
  "loads (snd (run_events [s] evs w)) = loads w"
  "trainer_calls (snd (run_events [s] evs w)) = trainer_calls w"
  "fit_loaders (snd (run_events [s] evs w)) = fit_loaders w"
proof -
  from run_events_saves_only[of s evs w] obtain saves where
    "snd (run_events [s] evs w) = map (\<lambda>(p, tr). SaveCheckpoint p tr) saves @ w" by blast
  then show "loads (snd (run_events [s] evs w)) = loads w"
    "trainer_calls (snd (run_events [s] evs w)) = trainer_calls w"
    "fit_loaders (snd (run_events [s] evs w)) = fit_loaders w"
    by (simp_all add: writes_only_loads writes_only_trainer_calls writes_only_fit_loaders)
qed

subsection \<open>The whole of a run\<close>

lemma train_too_few:
  "merge_datasets cfg \<Longrightarrow> length (split_str (data_dir cfg) CHR '','') < 2 \<Longrightarrow>
   train env cfg w = (Inl ValueError, w)"
  by (simp add: train_def train_setup_fail[OF prepare_datasets_too_few])

text \<open>The call of the engine that a set-up leads to.\<close>

lemma train_after_setup:
  assumes "train_setup env cfg w = (Inr (locals_of cfg d), w1)"
  shows "train env cfg w =
     (case run_events [saver_of cfg]
             (fst (engine env (l_trainer (locals_of cfg d)) (l_model (locals_of cfg d)) (DataLoader d 1 False)))
             (Fit (l_trainer (locals_of cfg d)) (l_model (locals_of cfg d)) (DataLoader d 1 False) # w1) of
        (Inl e, w2) \<Rightarrow> (Inl e, w2)
      | (Inr u, w2) \<Rightarrow>
          (Inr (), SaveCheckpoint (final_ckpt (saver_of cfg))
             (snd (engine env (l_trainer (locals_of cfg d)) (l_model (locals_of cfg d)) (DataLoader d 1 False))) # w2))"
proof -
  have l: "l_dataloader (locals_of cfg d) = DataLoader d 1 False"
    "callbacks (l_trainer (locals_of cfg d)) = [saver_of cfg]"
    "l_checkpoint_saver (locals_of cfg d) = saver_of cfg"
    by (simp_all add: locals_of_def)
  show ?thesis
    unfolding train_def assms fit_def
    by (simp add: l save_final_checkpoint_def save_checkpoint_def split: prod.splits sum.splits)
qed

lemma train_error:
  "fst (train env cfg w) = Inl ValueError \<longleftrightarrow>
     merge_datasets cfg \<and> length (split_str (data_dir cfg) CHR '','') < 2"
proof (cases rule: train_setup_cases[of cfg env w])
  case too_few
  then show ?thesis by (simp add: train_too_few)
next
  case (ok d w')
  let ?evs = "fst (engine env (l_trainer (locals_of cfg d)) (l_model (locals_of cfg d)) (DataLoader d 1 False))"
  let ?w1 = "Fit (l_trainer (locals_of cfg d)) (l_model (locals_of cfg d)) (DataLoader d 1 False) # w'"
  obtain r w2 where r: "run_events [saver_of cfg] ?evs ?w1 = (r, w2)"
    by (cases "run_events [saver_of cfg] ?evs ?w1")
  have "fst (train env cfg w) \<noteq> Inl ValueError"
  proof (cases r)
    case (Inl e)
    with run_events_error[of "saver_of cfg" ?evs ?w1 e] r have "e = ZeroDivisionError" by simp
    with Inl r show ?thesis by (simp add: train_after_setup[OF ok(3)])
  next
    case (Inr u)
    with r show ?thesis by (simp add: train_after_setup[OF ok(3)])
  qed
  with ok(1) show ?thesis by simp
qed

lemma train_final_write:
  assumes "fst (train env cfg w) = Inr ()"
  shows "writes_to (final_ckpt (saver_of cfg)) (snd (train env cfg w)) =
           Suc (writes_to (final_ckpt (saver_of cfg)) w)
         \<and> (\<exists>tr_end w'. snd (train env cfg w) = SaveCheckpoint (final_ckpt (saver_of cfg)) tr_end # w')"
proof (cases rule: train_setup_cases[of cfg env w])
  case too_few
  with assms show ?thesis by (simp add: train_too_few)
next
  case (ok d w')
  let ?evs = "fst (engine env (l_trainer (locals_of cfg d)) (l_model (locals_of cfg d)) (DataLoader d 1 False))"
  let ?w1 = "Fit (l_trainer (locals_of cfg d)) (l_model (locals_of cfg d)) (DataLoader d 1 False) # w'"
  obtain r w2 where r: "run_events [saver_of cfg] ?evs ?w1 = (r, w2)"
    by (cases "run_events [saver_of cfg] ?evs ?w1")
  from run_events_no_final_write[of "saver_of cfg" ?evs ?w1] r ok(4)
  have w2: "writes_to (final_ckpt (saver_of cfg)) w2 = writes_to (final_ckpt (saver_of cfg)) w"
    by simp
  show ?thesis
  proof (cases r)
    case (Inl e)
    with r assms show ?thesis by (simp add: train_after_setup[OF ok(3)])
  next
    case (Inr u)
    with r w2 show ?thesis by (simp add: train_after_setup[OF ok(3)])
  qed
qed

lemma train_failed_no_final_write:
  assumes "fst (train env cfg w) \<noteq> Inr ()"
  shows "writes_to (final_ckpt (saver_of cfg)) (snd (train env cfg w)) =
           writes_to (final_ckpt (saver_of cfg)) w"
proof (cases rule: train_setup_cases[of cfg env w])
  case too_few
  then show ?thesis by (simp add: train_too_few)
next
  case (ok d w')
  let ?evs = "fst (engine env (l_trainer (locals_of cfg d)) (l_model (locals_of cfg d)) (DataLoader d 1 False))"
  let ?w1 = "Fit (l_trainer (locals_of cfg d)) (l_model (locals_of cfg d)) (DataLoader d 1 False) # w'"
  obtain r w2 where r: "run_events [saver_of cfg] ?evs ?w1 = (r, w2)"
    by (cases "run_events [saver_of cfg] ?evs ?w1")
  from run_events_no_final_write[of "saver_of cfg" ?evs ?w1] r ok(4)
  have w2: "writes_to (final_ckpt (saver_of cfg)) w2 = writes_to (final_ckpt (saver_of cfg)) w"
    by simp
  show ?thesis
  proof (cases r)
    case (Inl e)
    with r w2 show ?thesis by (simp add: train_after_setup[OF ok(3)])
  next
    case (Inr u)
    with r assms show ?thesis by (simp add: train_after_setup[OF ok(3)])
  qed
qed

text \<open>What the trace of a whole run holds, when the merge validation passes.\<close>

lemma train_trace:
  assumes "\<not> (merge_datasets cfg \<and> length (split_str (data_dir cfg) CHR '','') < 2)"
  shows "\<exists>d. fst (prepare_datasets env cfg w) = Inr d
           \<and> loads (snd (train env cfg w)) = loads (snd (prepare_datasets env cfg w))
           \<and> trainer_calls (snd (train env cfg w)) = l_trainer (locals_of cfg d) # trainer_calls w
           \<and> fit_loaders (snd (train env cfg w)) = DataLoader d 1 False # fit_loaders w"
proof (cases rule: train_setup_cases[of cfg env w])
  case too_few
  with assms show ?thesis by simp
next
  case (ok d w')
  let ?evs = "fst (engine env (l_trainer (locals_of cfg d)) (l_model (locals_of cfg d)) (DataLoader d 1 False))"
  let ?w1 = "Fit (l_trainer (locals_of cfg d)) (l_model (locals_of cfg d)) (DataLoader d 1 False) # w'"
  obtain r w2 where r: "run_events [saver_of cfg] ?evs ?w1 = (r, w2)"
    by (cases "run_events [saver_of cfg] ?evs ?w1")
  from run_events_trace[of "saver_of cfg" ?evs ?w1] r ok(5,6,7)
  have w2: "loads w2 = loads (snd (prepare_datasets env cfg w))"
    "trainer_calls w2 = l_trainer (locals_of cfg d) # trainer_calls w"
    "fit_loaders w2 = DataLoader d 1 False # fit_loaders w"
    by simp_all
  have "loads (snd (train env cfg w)) = loads (snd (prepare_datasets env cfg w))
      \<and> trainer_calls (snd (train env cfg w)) = l_trainer (locals_of cfg d) # trainer_calls w
      \<and> fit_loaders (snd (train env cfg w)) = DataLoader d 1 False # fit_loaders w"
  proof (cases r)
    case (Inl e)
    with r w2 show ?thesis by (simp add: train_after_setup[OF ok(3)])
  next
    case (Inr u)
    with r w2 show ?thesis by (simp add: train_after_setup[OF ok(3)])
  qed
  with ok(2) show ?thesis by blast
qed

subsection \<open>The order of the loader\<close>

lemma in_batches_one: "in_batches (Suc 0) xs = map (\<lambda>x. [x]) xs"
proof (rule nth_equalityI)
  show "length (in_batches (Suc 0) xs) = length (map (\<lambda>x. [x]) xs)"
    by (simp add: in_batches_def)
next
  fix k
  assume "k < length (in_batches (Suc 0) xs)"
  then have k: "k < length xs" by (simp add: in_batches_def)
  then have "take (Suc 0) (drop k xs) = [xs ! k]"
    by (simp add: take_Suc_conv_app_nth)
  with k show "in_batches (Suc 0) xs ! k = map (\<lambda>x. [x]) xs ! k"
    by (simp add: in_batches_def)
qed

lemma upt_shift: "[lo..<lo + n] = map (\<lambda>i. i + lo) [0..<n]"
  by (simp add: map_add_upt add.commute)

lemma locate_first_member:
  "map (locate (cumulative lo (n # ns)) k lo) [lo..<lo + n] = map Some (map (Pair k) [0..<n])"
  unfolding upt_shift by simp

lemma locate_later_member:
  "lo + n \<le> i \<Longrightarrow> locate (cumulative lo (n # ns)) k lo i = locate (cumulative (lo + n) ns) (Suc k) (lo + n) i"
  by simp

lemma locate_later_members:
  "map (locate (cumulative lo (n # ns)) k lo) [lo + n..<lo + n + sum_list ns]
     = map (locate (cumulative (lo + n) ns) (Suc k) (lo + n)) [lo + n..<lo + n + sum_list ns]"
proof (rule map_cong[OF refl])
  fix i assume "i \<in> set [lo + n..<lo + n + sum_list ns]"
  then have "lo + n \<le> i" by simp
  then show "locate (cumulative lo (n # ns)) k lo i = locate (cumulative (lo + n) ns) (Suc k) (lo + n) i"
    by (rule locate_later_member)
qed

lemma upt_split_first: "[lo..<lo + sum_list (n # ns)] = [lo..<lo + n] @ [lo + n..<lo + n + sum_list ns]"
proof -
  have "[lo..<(lo + n) + sum_list ns] = [lo..<lo + n] @ [lo + n..<lo + n + sum_list ns]"
    by (rule upt_add_eq_append) simp
  then show ?thesis by (simp only: sum_list.Cons add.assoc)
qed

lemma locate_enumerates:
  "map (locate (cumulative lo ns) k lo) [lo..<lo + sum_list ns] = map Some (enumerate_members k ns)"
proof (induction ns arbitrary: lo k)
  case Nil
  then show ?case by simp
next
  case (Cons n ns)
  have "map (locate (cumulative lo (n # ns)) k lo) [lo..<lo + sum_list (n # ns)]
      = map (locate (cumulative lo (n # ns)) k lo) [lo..<lo + n]
        @ map (locate (cumulative lo (n # ns)) k lo) [lo + n..<lo + n + sum_list ns]"
    by (simp only: upt_split_first map_append)
  also have "\<dots> = map Some (map (Pair k) [0..<n]) @ map Some (enumerate_members (Suc k) ns)"
    by (simp only: locate_first_member locate_later_members Cons.IH)
  also have "\<dots> = map Some (enumerate_members k (n # ns))"
    by (simp only: enumerate_members.simps map_append)
  finally show ?case .
qed

lemma resolve_enumerates:
  assumes "MultiplePrefixDataset ds = Inr c"
  shows "map (resolve c) [0..<composite_length c] = map Some (construction_order c)"
proof -
  from assms have b: "boundaries c = cumulative 0 (map pd_length ds)" and m: "members c = ds"
    by (auto simp: MultiplePrefixDataset_def split: if_splits)
  have "resolve c = locate (cumulative 0 (map pd_length ds)) 0 0"
    by (rule ext) (simp add: resolve_def b)
  with locate_enumerates[of 0 "map pd_length ds" 0] composite_length_sum[OF assms]
  show ?thesis by (simp add: construction_order_def m)
qed

subsection \<open>The scenario: directories A and B, three epochs\<close>

lemma merged_config_fields:
  "merge_datasets merged_config" "data_dir merged_config = ''A,B''" "epochs merged_config = 3"
  "batch_size merged_config = 256" "normalize_prefix merged_config = False"
  "output_dir merged_config = ''models''" "output_name_prefix merged_config = ''demo''"
  "save_every_epochs merged_config = 1" "save_every_steps merged_config = None"
  "prefix_only merged_config = False" "gpu_devices merged_config = PyStr ''0''"
  by (simp_all add: merged_config_def default_config_def)

lemma saver_of_merged_config: "saver_of merged_config = demo_saver 1 None"
  by (simp add: saver_of_def demo_saver_def merged_config_fields)

lemma prepare_merged_demo:
  "prepare_datasets demo_env merged_config w =
     (Inr demo_dataset, LoadDataset ''B'' 256 False # LoadDataset ''A'' 256 False # w)"
  using prepare_datasets_merged[of merged_config demo_env w]
  by (simp add: merged_config_fields dataset_at_def demo_env_def demo_member_def demo_dataset_def)

lemma len_demo_dataset: "len_dataset demo_dataset = 150"
  by (simp add: demo_dataset_def composite_length_def)

lemma setup_merged_demo:
  "train_setup demo_env merged_config [] =
     (Inr (locals_of merged_config demo_dataset),
      [ConstructTrainer (l_trainer (locals_of merged_config demo_dataset)),
       MkDir ''models'', Print ''Train both Prefix and Language Model.'',
       ConstructModel (CLIPCaptionModel (model_kwargs_of merged_config 450)),
       LoadDataset ''B'' 256 False, LoadDataset ''A'' 256 False])"
  using train_setup_ok[OF prepare_merged_demo[of "[]"]]
  by (simp add: merged_config_fields build_model_def len_demo_dataset)

lemma engine_merged_demo:
  "engine demo_env (l_trainer (locals_of merged_config demo_dataset)) m dl =
     ([EpochEnd (at 0 1), EpochEnd (at 1 2), EpochEnd (at 2 3)], at 3 3)"
proof -
  have "[0..<3] = [0, 1, 2::nat]" by (simp add: upt_rec)
  then show ?thesis
    by (simp add: demo_env_def locals_of_def merged_config_fields)
qed

lemma train_merged_demo:
  "train demo_env merged_config [] =
     (Inr (),
      [SaveCheckpoint ''models/demo_final.ckpt'' (at 3 3),
       SaveCheckpoint ''models/demo_epoch_2.ckpt'' (at 2 3),
       SaveCheckpoint ''models/demo_epoch_1.ckpt'' (at 1 2),
       SaveCheckpoint ''models/demo_epoch_0.ckpt'' (at 0 1),
       Fit (l_trainer (locals_of merged_config demo_dataset)) (l_model (locals_of merged_config demo_dataset))
         (DataLoader demo_dataset 1 False),
       ConstructTrainer (l_trainer (locals_of merged_config demo_dataset)),
       MkDir ''models'', Print ''Train both Prefix and Language Model.'',
       ConstructModel (CLIPCaptionModel (model_kwargs_of merged_config 450)),
       LoadDataset ''B'' 256 False, LoadDataset ''A'' 256 False])"
  unfolding train_after_setup[OF setup_merged_demo] engine_merged_demo saver_of_merged_config
  by (simp add: eval_simps dispatch_single)

subsection \<open>The claims about train\<close>

text \<open>
  Claim C1 as stated fails: \<^verbatim>\<open>train\<close> validates nothing. The string \<^verbatim>\<open>"x"\<close> is no
  integer, so train.py:112-113 leaves it alone, and \<^verbatim>\<open>train\<close> calls \<^verbatim>\<open>pl.Trainer\<close> with
  \<^verbatim>\<open>gpus="x"\<close> as it is.
\<close>

theorem gpu_devices_string_passed_through:
  "resolve_gpu_devices (PyStr ''x'') = PyStr ''x''
   \<and> map gpus (trainer_calls (snd (train demo_env (default_config\<lparr>gpu_devices := PyStr ''x''\<rparr>) [])))
       = [PyStr ''x'']"
proof -
  have "\<not> (merge_datasets (default_config\<lparr>gpu_devices := PyStr ''x''\<rparr>)
      \<and> length (split_str (data_dir (default_config\<lparr>gpu_devices := PyStr ''x''\<rparr>)) CHR '','') < 2)"
    by (simp add: default_config_def)
  from train_trace[OF this, of demo_env "[]"] show ?thesis
    by (auto simp: locals_of_def resolve_gpu_devices_def default_config_def)
qed

text \<open>
  Claim C1, amended. Device selection is a total mapping that \<^verbatim>\<open>train\<close> applies without
  validating the value. A non-negative integer \<open>n\<close> yields the one-element selection
  \<open>[n]\<close>; the sentinel -1 is left as it is, which the engine reads as all devices; a
  sequence is left as it is. A value of any other shape is not rejected but handed on: a
  value that is no integer, such as the string \<^verbatim>\<open>"x"\<close>, unchanged, and any other integer
  (a negative one other than -1, or a boolean, which Python counts as an integer) wrapped
  into a one-element list. The value so resolved is what \<^verbatim>\<open>train\<close> calls \<^verbatim>\<open>pl.Trainer\<close>
  with, once, whenever the run gets past the merge validation (C4); what the engine makes
  of it lies outside the sources.
\<close>

theorem gpu_devices_resolution:
  "(0 \<le> n \<longrightarrow> resolve_gpu_devices (PyInt n) = PyList [PyInt n])
   \<and> resolve_gpu_devices (PyInt (- 1)) = PyInt (- 1)
   \<and> resolve_gpu_devices (PyList xs) = PyList xs
   \<and> resolve_gpu_devices (PyTuple xs) = PyTuple xs
   \<and> resolve_gpu_devices (PyStr s) = PyStr s
   \<and> resolve_gpu_devices PyNone = PyNone
   \<and> (n < - 1 \<longrightarrow> resolve_gpu_devices (PyInt n) = PyList [PyInt n])
   \<and> resolve_gpu_devices (PyBool b) = PyList [PyBool b]
   \<and> (\<not> (merge_datasets cfg \<and> length (split_str (data_dir cfg) CHR '','') < 2) \<longrightarrow>
        map gpus (trainer_calls (snd (train env cfg w))) =
          resolve_gpu_devices (gpu_devices cfg) # map gpus (trainer_calls w))
   \<and> (fst (train_setup env cfg w) = Inr l \<longrightarrow>
        l_gpu_devices l = resolve_gpu_devices (gpu_devices cfg)
        \<and> gpus (l_trainer l) = resolve_gpu_devices (gpu_devices cfg))"
proof -
  have a: "l_gpu_devices l = resolve_gpu_devices (gpu_devices cfg)
        \<and> gpus (l_trainer l) = resolve_gpu_devices (gpu_devices cfg)"
    if "fst (train_setup env cfg w) = Inr l"
    using arg_cong[OF train_setup_locals[OF that], of l_gpu_devices]
      arg_cong[OF train_setup_locals[OF that], of "\<lambda>l. gpus (l_trainer l)"]
    by (simp add: locals_of_def)
  have b: "map gpus (trainer_calls (snd (train env cfg w))) =
          resolve_gpu_devices (gpu_devices cfg) # map gpus (trainer_calls w)"
    if "\<not> (merge_datasets cfg \<and> length (split_str (data_dir cfg) CHR '','') < 2)"
    using train_trace[OF that, of env w] by (auto simp: locals_of_def)
  from a b show ?thesis
    by (simp add: resolve_gpu_devices_def)
qed

text \<open>
  C1 (amended) at concrete inputs: 0, -1, -2, \<^verbatim>\<open>True\<close>, the sequence 0, 1 and the string x.
\<close>

theorem gpu_devices_resolution_witness:
  "(0::int) \<le> 0 \<and> resolve_gpu_devices (PyInt 0) = PyList [PyInt 0]
   \<and> resolve_gpu_devices (PyInt (- 1)) = PyInt (- 1)
   \<and> resolve_gpu_devices (PyList [PyInt 0, PyInt 1]) = PyList [PyInt 0, PyInt 1]
   \<and> resolve_gpu_devices (PyTuple [PyInt 0, PyInt 1]) = PyTuple [PyInt 0, PyInt 1]
   \<and> resolve_gpu_devices (PyStr ''x'') = PyStr ''x''
   \<and> (- 2::int) < - 1 \<and> resolve_gpu_devices (PyInt (- 2)) = PyList [PyInt (- 2)]
   \<and> resolve_gpu_devices (PyBool True) = PyList [PyBool True]
   \<and> map gpus (trainer_calls (snd (train demo_env (default_config\<lparr>gpu_devices := PyInt 0\<rparr>) [])))
       = [PyList [PyInt 0]]
   \<and> map gpus (trainer_calls (snd (train demo_env (default_config\<lparr>gpu_devices := PyInt (- 1)\<rparr>) [])))
       = [PyInt (- 1)]
   \<and> fst (train_setup demo_env (default_config\<lparr>gpu_devices := PyInt 0\<rparr>) []) =
       Inr (locals_of (default_config\<lparr>gpu_devices := PyInt 0\<rparr>)
              (Single (dataset_at demo_env (default_config\<lparr>gpu_devices := PyInt 0\<rparr>) ''./train/'')))
   \<and> gpus (l_trainer (locals_of (default_config\<lparr>gpu_devices := PyInt 0\<rparr>)
              (Single (dataset_at demo_env (default_config\<lparr>gpu_devices := PyInt 0\<rparr>) ''./train/''))))
       = PyList [PyInt 0]"
proof -
  have "\<not> merge_datasets (default_config\<lparr>gpu_devices := PyInt 0\<rparr>)"
    by (simp add: default_config_def)
  from train_setup_ok[OF prepare_datasets_single[OF this], of demo_env "[]"]
  have s: "fst (train_setup demo_env (default_config\<lparr>gpu_devices := PyInt 0\<rparr>) []) =
       Inr (locals_of (default_config\<lparr>gpu_devices := PyInt 0\<rparr>)
              (Single (dataset_at demo_env (default_config\<lparr>gpu_devices := PyInt 0\<rparr>) ''./train/'')))"
    by (simp add: default_config_def)
  show ?thesis
    using s
      gpu_devices_resolution[of 0 "[PyInt 0, PyInt 1]" "''x''" True
        "default_config\<lparr>gpu_devices := PyInt 0\<rparr>" demo_env "[]"
        "locals_of (default_config\<lparr>gpu_devices := PyInt 0\<rparr>)
              (Single (dataset_at demo_env (default_config\<lparr>gpu_devices := PyInt 0\<rparr>) ''./train/''))"]
      gpu_devices_resolution[of "- 2" "[PyInt 0, PyInt 1]" "''x''" True
        "default_config\<lparr>gpu_devices := PyInt (- 1)\<rparr>" demo_env "[]"]
    by (simp add: default_config_def)
qed

text \<open>
  Claim C4. With merge mode requested, a \<^verbatim>\<open>data_dir\<close> that splits at its commas into
  fewer than two entries makes \<^verbatim>\<open>train\<close> fail with the \<^verbatim>\<open>ValueError\<close> of train.py:72
  (the spec's ConfigurationError) and an unchanged trace: no dataset was read, no model
  constructed, nothing written. With two or more entries \<^verbatim>\<open>train\<close> does not raise that
  error, and it loads one member dataset per entry, in the order listed: the trace of
  the whole run holds exactly one read per entry, with the configured batch size and
  normalisation flag, and the engine is handed the merged dataset of those directories.
  The number of entries is one more than the number of commas.
\<close>

theorem merge_needs_two_directories:
  "(merge_datasets cfg \<and> length (split_str (data_dir cfg) CHR '','') < 2 \<longrightarrow>
      train env cfg w = (Inl ValueError, w))
   \<and> (merge_datasets cfg \<and> 2 \<le> length (split_str (data_dir cfg) CHR '','') \<longrightarrow>
        fst (train env cfg w) \<noteq> Inl ValueError
        \<and> (\<exists>c. fst (prepare_datasets env cfg w) = Inr (Merged c)
               \<and> map pd_directory (members c) = split_str (data_dir cfg) CHR '','')
        \<and> snd (prepare_datasets env cfg w) =
            rev (map (\<lambda>d. LoadDataset d (batch_size cfg) (normalize_prefix cfg))
                   (split_str (data_dir cfg) CHR '','')) @ w
        \<and> loads (snd (train env cfg w)) =
            rev (map (\<lambda>d. (d, batch_size cfg, normalize_prefix cfg))
                   (split_str (data_dir cfg) CHR '','')) @ loads w
        \<and> (\<exists>c. fit_loaders (snd (train env cfg w)) = DataLoader (Merged c) 1 False # fit_loaders w
               \<and> map pd_directory (members c) = split_str (data_dir cfg) CHR '',''))
   \<and> length (split_str (data_dir cfg) CHR '','') = Suc (length (filter (\<lambda>c. c = CHR '','') (data_dir cfg)))"
proof (intro conjI impI)
  assume "merge_datasets cfg \<and> length (split_str (data_dir cfg) CHR '','') < 2"
  then show "train env cfg w = (Inl ValueError, w)" by (simp add: train_too_few)
next
  assume a: "merge_datasets cfg \<and> 2 \<le> length (split_str (data_dir cfg) CHR '','')"
  with train_error[of env cfg w] show "fst (train env cfg w) \<noteq> Inl ValueError" by simp
  let ?c = "\<lparr>members = map (dataset_at env cfg) (split_str (data_dir cfg) CHR '',''),
             boundaries = cumulative 0 (map pd_length (map (dataset_at env cfg) (split_str (data_dir cfg) CHR '','')))\<rparr>"
  from a have p: "prepare_datasets env cfg w =
     (Inr (Merged ?c),
      rev (map (\<lambda>d. LoadDataset d (batch_size cfg) (normalize_prefix cfg)) (split_str (data_dir cfg) CHR '','')) @ w)"
    by (simp add: prepare_datasets_merged)
  have dirs: "map pd_directory (map (dataset_at env cfg) ds) = ds" for ds
    by (induction ds) (simp_all add: dataset_at_def)
  with p show "\<exists>c. fst (prepare_datasets env cfg w) = Inr (Merged c)
               \<and> map pd_directory (members c) = split_str (data_dir cfg) CHR '',''"
    by simp
  from p show "snd (prepare_datasets env cfg w) =
            rev (map (\<lambda>d. LoadDataset d (batch_size cfg) (normalize_prefix cfg))
                   (split_str (data_dir cfg) CHR '','')) @ w"
    by simp
  from a have ok: "\<not> (merge_datasets cfg \<and> length (split_str (data_dir cfg) CHR '','') < 2)"
    by simp
  from train_trace[OF ok, of env w] p
  have t: "loads (snd (train env cfg w)) = loads (snd (prepare_datasets env cfg w))"
    "fit_loaders (snd (train env cfg w)) = DataLoader (Merged ?c) 1 False # fit_loaders w"
    by auto
  from t(1) a show "loads (snd (train env cfg w)) =
            rev (map (\<lambda>d. (d, batch_size cfg, normalize_prefix cfg))
                   (split_str (data_dir cfg) CHR '','')) @ loads w"
    by (simp add: prepare_datasets_loads_merged)
  from t(2) dirs[of "split_str (data_dir cfg) CHR '',''"]
  show "\<exists>c. fit_loaders (snd (train env cfg w)) = DataLoader (Merged c) 1 False # fit_loaders w
               \<and> map pd_directory (members c) = split_str (data_dir cfg) CHR '',''"
    by (intro exI[of _ ?c]) simp
next
  show "length (split_str (data_dir cfg) CHR '','') = Suc (length (filter (\<lambda>c. c = CHR '','') (data_dir cfg)))"
    by (rule length_split_str)
qed

text \<open>
  C4 at concrete inputs: the directory lists \<^verbatim>\<open>A\<close> (no read, no call of the engine) and
  \<^verbatim>\<open>A,B\<close> (A read, then B; the engine handed the merged dataset).
\<close>

theorem merge_needs_two_directories_witness:
  "merge_datasets (merged_config\<lparr>data_dir := ''A''\<rparr>)
   \<and> length (split_str (data_dir (merged_config\<lparr>data_dir := ''A''\<rparr>)) CHR '','') < 2
   \<and> train demo_env (merged_config\<lparr>data_dir := ''A''\<rparr>) [] = (Inl ValueError, [])
   \<and> merge_datasets merged_config
   \<and> 2 \<le> length (split_str (data_dir merged_config) CHR '','')
   \<and> fst (train demo_env merged_config []) \<noteq> Inl ValueError
   \<and> snd (prepare_datasets demo_env merged_config []) =
       [LoadDataset ''B'' 256 False, LoadDataset ''A'' 256 False]
   \<and> loads (snd (train demo_env merged_config [])) = [(''B'', 256, False), (''A'', 256, False)]
   \<and> fit_loaders (snd (train demo_env merged_config [])) = [DataLoader demo_dataset 1 False]
   \<and> fit_loaders (snd (train demo_env (merged_config\<lparr>data_dir := ''A''\<rparr>) [])) = []"
proof -
  have few: "merge_datasets (merged_config\<lparr>data_dir := ''A''\<rparr>)"
    "length (split_str (data_dir (merged_config\<lparr>data_dir := ''A''\<rparr>)) CHR '','') < 2"
    by (simp_all add: merged_config_fields)
  have ok: "merge_datasets merged_config"
    "2 \<le> length (split_str (data_dir merged_config) CHR '','')"
    by (simp_all add: merged_config_fields)
  show ?thesis
    using few ok
      merge_needs_two_directories[of "merged_config\<lparr>data_dir := ''A''\<rparr>" demo_env "[]"]
      merge_needs_two_directories[of merged_config demo_env "[]"]
    by (simp add: merged_config_fields prepare_merged_demo train_merged_demo)
qed

text \<open>
  Claim C5. Whenever the set-up succeeds, \<^verbatim>\<open>total_steps\<close> is the length of the dataset
  times the number of epochs, exactly, and that is the value the model is constructed
  with. It is no option of its own: the configuration has no such field, and a run with
  another number of epochs over the same data gets the product with that number. For a
  single directory of any item count the set-up succeeds with the item count times the
  epochs.
\<close>

theorem total_steps_derived:
  "(fst (train_setup env cfg w) = Inr l \<longrightarrow>
      l_total_steps l = int (len_dataset (l_dataset l)) * epochs cfg
      \<and> kw_total_steps (kwargs_of_model (l_model l)) = int (len_dataset (l_dataset l)) * epochs cfg)
   \<and> (fst (train_setup env cfg w) = Inr l \<and> fst (train_setup env (cfg\<lparr>epochs := e\<rparr>) w) = Inr l' \<longrightarrow>
        l_total_steps l' = int (len_dataset (l_dataset l)) * e)
   \<and> (\<not> merge_datasets cfg \<longrightarrow>
        (\<exists>l. fst (train_setup env cfg w) = Inr l
           \<and> l_total_steps l =
               int (items_in env (data_dir cfg) (batch_size cfg) (normalize_prefix cfg)) * epochs cfg))"
proof (intro conjI impI)
  assume a: "fst (train_setup env cfg w) = Inr l"
  from arg_cong[OF train_setup_locals[OF a], of l_total_steps]
  show "l_total_steps l = int (len_dataset (l_dataset l)) * epochs cfg"
    by (simp add: locals_of_def)
  from arg_cong[OF train_setup_locals[OF a], of "\<lambda>l. kw_total_steps (kwargs_of_model (l_model l))"]
  show "kw_total_steps (kwargs_of_model (l_model l)) = int (len_dataset (l_dataset l)) * epochs cfg"
    by (simp add: locals_of_def model_kwargs_of_def)
next
  assume a: "fst (train_setup env cfg w) = Inr l \<and> fst (train_setup env (cfg\<lparr>epochs := e\<rparr>) w) = Inr l'"
  have "dataset_at env (cfg\<lparr>epochs := e\<rparr>) = dataset_at env cfg"
    by (rule ext) (simp add: dataset_at_def)
  then have same: "prepare_datasets env (cfg\<lparr>epochs := e\<rparr>) w = prepare_datasets env cfg w"
    by (simp add: prepare_datasets_def load_all_eq TokenPrefixDataset_def Let_def)
  obtain r w1 where p: "prepare_datasets env cfg w = (r, w1)"
    by (cases "prepare_datasets env cfg w")
  have "l_dataset l' = l_dataset l"
  proof (cases r)
    case (Inl x)
    with p a train_setup_fail[of env cfg w x w1] show ?thesis by simp
  next
    case (Inr d)
    with p same a train_setup_ok[of env cfg w d w1] train_setup_ok[of env "cfg\<lparr>epochs := e\<rparr>" w d w1]
    show ?thesis by (auto simp: locals_of_def)
  qed
  with arg_cong[OF train_setup_locals[of env "cfg\<lparr>epochs := e\<rparr>" w l'], of l_total_steps] a
  show "l_total_steps l' = int (len_dataset (l_dataset l)) * e"
    by (simp add: locals_of_def)
next
  assume a: "\<not> merge_datasets cfg"
  from train_setup_ok[OF prepare_datasets_single[OF a], of env w]
  have "fst (train_setup env cfg w) = Inr (locals_of cfg (Single (dataset_at env cfg (data_dir cfg))))"
    by simp
  moreover have "l_total_steps (locals_of cfg (Single (dataset_at env cfg (data_dir cfg)))) =
      int (items_in env (data_dir cfg) (batch_size cfg) (normalize_prefix cfg)) * epochs cfg"
    by (simp add: locals_of_def dataset_at_def)
  ultimately show "\<exists>l. fst (train_setup env cfg w) = Inr l
           \<and> l_total_steps l =
               int (items_in env (data_dir cfg) (batch_size cfg) (normalize_prefix cfg)) * epochs cfg"
    by blast
qed

text \<open>
  C5 at concrete inputs: 150 items and 3 epochs give 450, 5 epochs give 750; the default
  configuration over 7 items gives 21.
\<close>

theorem total_steps_derived_witness:
  "fst (train_setup demo_env merged_config []) = Inr (locals_of merged_config demo_dataset)
   \<and> len_dataset (l_dataset (locals_of merged_config demo_dataset)) = 150
   \<and> epochs merged_config = 3
   \<and> l_total_steps (locals_of merged_config demo_dataset) = 450
   \<and> kw_total_steps (kwargs_of_model (l_model (locals_of merged_config demo_dataset))) = 450
   \<and> fst (train_setup demo_env (merged_config\<lparr>epochs := 5\<rparr>) []) =
       Inr (locals_of (merged_config\<lparr>epochs := 5\<rparr>) demo_dataset)
   \<and> l_total_steps (locals_of (merged_config\<lparr>epochs := 5\<rparr>) demo_dataset) = 750
   \<and> \<not> merge_datasets default_config
   \<and> l_total_steps (projr (fst (train_setup demo_env default_config []))) = 21"
proof -
  have s: "fst (train_setup demo_env merged_config []) = Inr (locals_of merged_config demo_dataset)"
    by (simp add: setup_merged_demo)
  have "prepare_datasets demo_env (merged_config\<lparr>epochs := 5\<rparr>) [] =
     (Inr demo_dataset, [LoadDataset ''B'' 256 False, LoadDataset ''A'' 256 False])"
    using prepare_datasets_merged[of "merged_config\<lparr>epochs := 5\<rparr>" demo_env "[]"]
    by (simp add: merged_config_fields dataset_at_def demo_env_def demo_member_def demo_dataset_def)
  from train_setup_ok[OF this]
  have s5: "fst (train_setup demo_env (merged_config\<lparr>epochs := 5\<rparr>) []) =
       Inr (locals_of (merged_config\<lparr>epochs := 5\<rparr>) demo_dataset)"
    by simp
  have d: "\<not> merge_datasets default_config" by (simp add: default_config_def)
  show ?thesis
    using s s5 d
      total_steps_derived[of demo_env merged_config "[]" "locals_of merged_config demo_dataset" 5
        "locals_of (merged_config\<lparr>epochs := 5\<rparr>) demo_dataset"]
      total_steps_derived[of demo_env default_config "[]" "locals_of merged_config demo_dataset" 5
        "locals_of (merged_config\<lparr>epochs := 5\<rparr>) demo_dataset"]
    by (auto simp: merged_config_fields len_demo_dataset locals_of_def default_config_def demo_env_def)
qed

text \<open>
  Claim C6. The final save writes \<^verbatim>\<open>{prefix}_final.ckpt\<close> unconditionally: no cadence
  is consulted. \<^verbatim>\<open>train\<close> calls it once, after the fit has returned: a run that
  completes has written the final file exactly once, as its last effect, while a run
  that fails has not written it.
\<close>

theorem final_save_once:
  "save_final_checkpoint s tr w = SaveCheckpoint (final_ckpt s) tr # w
   \<and> final_ckpt s = path_join (output_path s) (filename_prefix s @ ''_final.ckpt'')
   \<and> (fst (train env cfg w) = Inr () \<longrightarrow>
        writes_to (final_ckpt (saver_of cfg)) (snd (train env cfg w)) =
          Suc (writes_to (final_ckpt (saver_of cfg)) w)
        \<and> (\<exists>tr_end w'. snd (train env cfg w) = SaveCheckpoint (final_ckpt (saver_of cfg)) tr_end # w'))
   \<and> (fst (train env cfg w) \<noteq> Inr () \<longrightarrow>
        writes_to (final_ckpt (saver_of cfg)) (snd (train env cfg w)) =
          writes_to (final_ckpt (saver_of cfg)) w)"
  using train_final_write[of env cfg w] train_failed_no_final_write[of env cfg w]
  by (simp add: save_final_checkpoint_def save_checkpoint_def final_ckpt_def)

text \<open>
  C6 on the spec's scenario: directories A and B, three epochs, an epoch cadence of 1 and
  no step cadence give three epoch checkpoints, one final checkpoint and no latest
  snapshot; with an epoch cadence of 0 the run fails and leaves no final checkpoint.
\<close>

theorem final_save_once_witness:
  "save_final_checkpoint (demo_saver 7 (Some 9)) (at 3 3) [] =
     [SaveCheckpoint ''models/demo_final.ckpt'' (at 3 3)]
   \<and> fst (train demo_env merged_config []) = Inr ()
   \<and> writes_to ''models/demo_final.ckpt'' (snd (train demo_env merged_config [])) = 1
   \<and> hd (snd (train demo_env merged_config [])) = SaveCheckpoint ''models/demo_final.ckpt'' (at 3 3)
   \<and> writes_to ''models/demo_latest.ckpt'' (snd (train demo_env merged_config [])) = 0
   \<and> writes_to ''models/demo_epoch_0.ckpt'' (snd (train demo_env merged_config [])) = 1
   \<and> writes_to ''models/demo_epoch_1.ckpt'' (snd (train demo_env merged_config [])) = 1
   \<and> writes_to ''models/demo_epoch_2.ckpt'' (snd (train demo_env merged_config [])) = 1
   \<and> fst (train demo_env (merged_config\<lparr>save_every_epochs := 0\<rparr>) []) \<noteq> Inr ()
   \<and> writes_to ''models/demo_final.ckpt'' (snd (train demo_env (merged_config\<lparr>save_every_epochs := 0\<rparr>) [])) = 0"
proof -
  have f: "final_ckpt (saver_of (merged_config\<lparr>save_every_epochs := 0\<rparr>)) = ''models/demo_final.ckpt''"
    "final_ckpt (saver_of merged_config) = ''models/demo_final.ckpt''"
    by (simp_all add: final_ckpt_def saver_of_def merged_config_fields path_join_def)
  have "fst (train demo_env (merged_config\<lparr>save_every_epochs := 0\<rparr>) []) = Inl ZeroDivisionError"
  proof -
    have p: "prepare_datasets demo_env (merged_config\<lparr>save_every_epochs := 0\<rparr>) [] =
       (Inr demo_dataset, [LoadDataset ''B'' 256 False, LoadDataset ''A'' 256 False])"
      using prepare_datasets_merged[of "merged_config\<lparr>save_every_epochs := 0\<rparr>" demo_env "[]"]
      by (simp add: merged_config_fields dataset_at_def demo_env_def demo_member_def demo_dataset_def)
    have e: "fst (engine demo_env (l_trainer (locals_of (merged_config\<lparr>save_every_epochs := 0\<rparr>) demo_dataset)) m dl)
        = [EpochEnd (at 0 1), EpochEnd (at 1 2), EpochEnd (at 2 3)]" for m dl
    proof -
      have "[0..<3] = [0, 1, 2::nat]" by (simp add: upt_rec)
      then show ?thesis
        by (simp add: demo_env_def locals_of_def merged_config_fields)
    qed
    show ?thesis
      unfolding train_after_setup[OF train_setup_ok[OF p]] e
      by (simp add: saver_of_def merged_config_fields on_epoch_end_def py_mod_def)
  qed
  then have n: "fst (train demo_env (merged_config\<lparr>save_every_epochs := 0\<rparr>) []) \<noteq> Inr ()"
    by simp
  show ?thesis
    using n f
      final_save_once[of "demo_saver 7 (Some 9)" "at 3 3" "[]" demo_env merged_config]
      final_save_once[of "demo_saver 7 (Some 9)" "at 3 3" "[]" demo_env
        "merged_config\<lparr>save_every_epochs := 0\<rparr>"]
    by (simp add: train_merged_demo demo_saver_def path_join_def)
qed

text \<open>
  Claim C10. Whenever its datasets are prepared, \<^verbatim>\<open>train\<close> calls the engine exactly once
  and hands it the loader \<^verbatim>\<open>DataLoader(dataset, batch_size=1, shuffle=False)\<close> over the
  prepared dataset, whatever the configuration (the \<^verbatim>\<open>batch_size\<close> option goes to the
  datasets, not to the loader); a run that fails the merge validation never calls the
  engine. The run is the fit over exactly that loader, followed by the final save. The
  batches of that loader are the single indices of the dataset in ascending order,
  whatever permutation a shuffling sampler would have used. For a merged dataset,
  ascending index order is construction order: the members as listed, each in its local
  order.
\<close>

theorem loader_sequential_order:
  "(fst (prepare_datasets env cfg w) = Inr d \<longrightarrow>
      fit_loaders (snd (train env cfg w)) = DataLoader d 1 False # fit_loaders w)
   \<and> (merge_datasets cfg \<and> length (split_str (data_dir cfg) CHR '','') < 2 \<longrightarrow>
        fit_loaders (snd (train env cfg w)) = fit_loaders w)
   \<and> (train_setup env cfg w = (Inr l, w1) \<longrightarrow>
        train env cfg w =
          (case fit env (l_trainer l) (l_model l) (DataLoader (l_dataset l) 1 False) w1 of
             (Inl e, w2) \<Rightarrow> (Inl e, w2)
           | (Inr tr_end, w2) \<Rightarrow> (Inr (), save_final_checkpoint (l_checkpoint_saver l) tr_end w2)))
   \<and> (fst (train_setup env cfg w) = Inr l \<longrightarrow>
        l_dataloader l = DataLoader (l_dataset l) 1 False
        \<and> dl_batch_size (l_dataloader l) = 1 \<and> \<not> dl_shuffle (l_dataloader l)
        \<and> loader_batches perm (l_dataloader l) = map (\<lambda>i. [i]) [0..<len_dataset (l_dataset l)])
   \<and> loader_batches perm (DataLoader d 1 False) = map (\<lambda>i. [i]) [0..<len_dataset d]
   \<and> (MultiplePrefixDataset ds = Inr c \<longrightarrow>
        map (resolve c) [0..<composite_length c] = map Some (construction_order c))"
proof (intro conjI impI)
  assume d: "fst (prepare_datasets env cfg w) = Inr d"
  have ok: "\<not> (merge_datasets cfg \<and> length (split_str (data_dir cfg) CHR '','') < 2)"
  proof
    assume "merge_datasets cfg \<and> length (split_str (data_dir cfg) CHR '','') < 2"
    then have "prepare_datasets env cfg w = (Inl ValueError, w)"
      by (simp add: prepare_datasets_too_few)
    with d show False by simp
  qed
  from train_trace[OF ok, of env w] d
  show "fit_loaders (snd (train env cfg w)) = DataLoader d 1 False # fit_loaders w"
    by auto
next
  assume "merge_datasets cfg \<and> length (split_str (data_dir cfg) CHR '','') < 2"
  then show "fit_loaders (snd (train env cfg w)) = fit_loaders w"
    by (simp add: train_too_few)
next
  assume a: "train_setup env cfg w = (Inr l, w1)"
  then have "fst (train_setup env cfg w) = Inr l" by simp
  from arg_cong[OF train_setup_locals[OF this], of l_dataloader]
  have "l_dataloader l = DataLoader (l_dataset l) 1 False"
    by (simp add: locals_of_def)
  with a show "train env cfg w =
          (case fit env (l_trainer l) (l_model l) (DataLoader (l_dataset l) 1 False) w1 of
             (Inl e, w2) \<Rightarrow> (Inl e, w2)
           | (Inr tr_end, w2) \<Rightarrow> (Inr (), save_final_checkpoint (l_checkpoint_saver l) tr_end w2))"
    by (simp add: train_def)
next
  assume a: "fst (train_setup env cfg w) = Inr l"
  from arg_cong[OF train_setup_locals[OF a], of l_dataloader]
  have l: "l_dataloader l = DataLoader (l_dataset l) 1 False"
    by (simp add: locals_of_def)
  then show "l_dataloader l = DataLoader (l_dataset l) 1 False" .
  from l show "dl_batch_size (l_dataloader l) = 1" by (simp add: DataLoader_def)
  from l show "\<not> dl_shuffle (l_dataloader l)" by (simp add: DataLoader_def)
  from l show "loader_batches perm (l_dataloader l) = map (\<lambda>i. [i]) [0..<len_dataset (l_dataset l)]"
    by (simp add: loader_batches_def sampled_indices_def DataLoader_def in_batches_one)
next
  show "loader_batches perm (DataLoader d 1 False) = map (\<lambda>i. [i]) [0..<len_dataset d]"
    by (simp add: loader_batches_def sampled_indices_def DataLoader_def in_batches_one)
next
  assume "MultiplePrefixDataset ds = Inr c"
  then show "map (resolve c) [0..<composite_length c] = map Some (construction_order c)"
    by (rule resolve_enumerates)
qed

text \<open>
  C10 at concrete inputs: the run of the spec's scenario hands the engine the loader of
  batch size 1 without shuffling over the merged dataset, though the configured
  \<^verbatim>\<open>batch_size\<close> is 256; members of lengths 2 and 1 come in the order (0,0), (0,1), (1,0).
\<close>

theorem loader_sequential_order_witness:
  "fst (prepare_datasets demo_env merged_config []) = Inr demo_dataset
   \<and> fit_loaders (snd (train demo_env merged_config [])) = [DataLoader demo_dataset 1 False]
   \<and> fit_loaders (snd (train demo_env (merged_config\<lparr>data_dir := ''A''\<rparr>) [])) = []
   \<and> train_setup demo_env merged_config [] =
       (Inr (locals_of merged_config demo_dataset), snd (train_setup demo_env merged_config []))
   \<and> train demo_env merged_config [] =
       (case fit demo_env (l_trainer (locals_of merged_config demo_dataset))
               (l_model (locals_of merged_config demo_dataset)) (DataLoader demo_dataset 1 False)
               (snd (train_setup demo_env merged_config [])) of
          (Inl e, w2) \<Rightarrow> (Inl e, w2)
        | (Inr tr_end, w2) \<Rightarrow> (Inr (), save_final_checkpoint (demo_saver 1 None) tr_end w2))
   \<and> batch_size merged_config = 256
   \<and> dl_batch_size (l_dataloader (locals_of merged_config demo_dataset)) = 1
   \<and> \<not> dl_shuffle (l_dataloader (locals_of merged_config demo_dataset))
   \<and> loader_batches (\<lambda>n. rev [0..<n]) (DataLoader demo_dataset 1 False) = map (\<lambda>i. [i]) [0..<150]
   \<and> MultiplePrefixDataset [demo_member ''A'' 2, demo_member ''B'' 1] =
       Inr \<lparr>members = [demo_member ''A'' 2, demo_member ''B'' 1], boundaries = [2, 3]\<rparr>
   \<and> map (resolve \<lparr>members = [demo_member ''A'' 2, demo_member ''B'' 1], boundaries = [2, 3]\<rparr>) [0, 1, 2] =
       [Some (0, 0), Some (0, 1), Some (1, 0)]"
proof -
  have s: "train_setup demo_env merged_config [] =
      (Inr (locals_of merged_config demo_dataset), snd (train_setup demo_env merged_config []))"
    by (simp add: setup_merged_demo)
  have s': "fst (train_setup demo_env merged_config []) = Inr (locals_of merged_config demo_dataset)"
    by (simp add: setup_merged_demo)
  have p: "fst (prepare_datasets demo_env merged_config []) = Inr demo_dataset"
    by (simp add: prepare_merged_demo)
  have few: "merge_datasets (merged_config\<lparr>data_dir := ''A''\<rparr>)
      \<and> length (split_str (data_dir (merged_config\<lparr>data_dir := ''A''\<rparr>)) CHR '','') < 2"
    by (simp add: merged_config_fields)
  have u: "[0..<3] = [0, 1, 2::nat]" "[0..<2] = [0, 1::nat]" "[0..<1] = [0::nat]"
    by (simp_all add: upt_rec)
  have m: "MultiplePrefixDataset [demo_member ''A'' 2, demo_member ''B'' 1] =
       Inr \<lparr>members = [demo_member ''A'' 2, demo_member ''B'' 1], boundaries = [2, 3]\<rparr>"
    by (simp add: MultiplePrefixDataset_def demo_member_def)
  have l: "l_dataset (locals_of merged_config demo_dataset) = demo_dataset"
    "l_checkpoint_saver (locals_of merged_config demo_dataset) = demo_saver 1 None"
    by (simp_all add: locals_of_def saver_of_merged_config)
  note T = loader_sequential_order[of demo_env merged_config "[]" demo_dataset
        "locals_of merged_config demo_dataset" "snd (train_setup demo_env merged_config [])"
        "\<lambda>n. rev [0..<n]"
        "[demo_member ''A'' 2, demo_member ''B'' 1]"
        "\<lparr>members = [demo_member ''A'' 2, demo_member ''B'' 1], boundaries = [2, 3]\<rparr>"]
  note T' = loader_sequential_order[of demo_env "merged_config\<lparr>data_dir := ''A''\<rparr>" "[]" demo_dataset
        "locals_of merged_config demo_dataset" "snd (train_setup demo_env merged_config [])"
        "\<lambda>n. rev [0..<n]"
        "[demo_member ''A'' 2, demo_member ''B'' 1]"
        "\<lparr>members = [demo_member ''A'' 2, demo_member ''B'' 1], boundaries = [2, 3]\<rparr>"]
  have c1: "fst (prepare_datasets demo_env merged_config []) = Inr demo_dataset"
    by (fact p)
  have c2: "fit_loaders (snd (train demo_env merged_config [])) = [DataLoader demo_dataset 1 False]"
    using T[THEN conjunct1] p by simp
  have c3: "fit_loaders (snd (train demo_env (merged_config\<lparr>data_dir := ''A''\<rparr>) [])) = []"
    using T'[THEN conjunct2, THEN conjunct1] few by simp
  have c4: "train_setup demo_env merged_config [] =
       (Inr (locals_of merged_config demo_dataset), snd (train_setup demo_env merged_config []))"
    by (fact s)
  have c5: "train demo_env merged_config [] =
       (case fit demo_env (l_trainer (locals_of merged_config demo_dataset))
               (l_model (locals_of merged_config demo_dataset)) (DataLoader demo_dataset 1 False)
               (snd (train_setup demo_env merged_config [])) of
          (Inl e, w2) \<Rightarrow> (Inl e, w2)
        | (Inr tr_end, w2) \<Rightarrow> (Inr (), save_final_checkpoint (demo_saver 1 None) tr_end w2))"
    using T[THEN conjunct2, THEN conjunct2, THEN conjunct1, rule_format, OF s]
    unfolding l .
  have c6: "batch_size merged_config = 256"
    by (simp add: merged_config_fields)
  note T4 = T[THEN conjunct2, THEN conjunct2, THEN conjunct2, THEN conjunct1, rule_format, OF s']
  have c7: "dl_batch_size (l_dataloader (locals_of merged_config demo_dataset)) = 1"
    by (rule T4[THEN conjunct2, THEN conjunct1])
  have c8: "\<not> dl_shuffle (l_dataloader (locals_of merged_config demo_dataset))"
    by (rule T4[THEN conjunct2, THEN conjunct2, THEN conjunct1])
  have c9: "loader_batches (\<lambda>n. rev [0..<n]) (DataLoader demo_dataset 1 False) = map (\<lambda>i. [i]) [0..<150]"
    using T[THEN conjunct2, THEN conjunct2, THEN conjunct2, THEN conjunct2, THEN conjunct1]
    by (simp add: len_demo_dataset)
  have c10: "MultiplePrefixDataset [demo_member ''A'' 2, demo_member ''B'' 1] =
       Inr \<lparr>members = [demo_member ''A'' 2, demo_member ''B'' 1], boundaries = [2, 3]\<rparr>"
    by (fact m)
  have c11: "map (resolve \<lparr>members = [demo_member ''A'' 2, demo_member ''B'' 1], boundaries = [2, 3]\<rparr>) [0, 1, 2] =
       [Some (0, 0), Some (0, 1), Some (1, 0)]"
    using T[THEN conjunct2, THEN conjunct2, THEN conjunct2, THEN conjunct2, THEN conjunct2] m
    by (simp add: composite_length_def construction_order_def demo_member_def u)
  show ?thesis
    by (rule conjI[OF c1 conjI[OF c2 conjI[OF c3 conjI[OF c4 conjI[OF c5 conjI[OF c6 conjI[OF c7 conjI[OF c8 conjI[OF c9 conjI[OF c10 c11]]]]]]]]]])
qed

end
